theory Spec2Isabelle
  imports Main "HOL-Library.Sublist" "HOL-Library.Multiset"
begin

section \<open>The environment manager of wc\_env\_manager/core.py\<close>

text \<open>
  The manager is a thin layer over the Docker client, the host's file system and Python's
  \<open>os.path\<close>. The embedding keeps the manager object as a record that is passed
  along and returned, with the capability calls it has issued so far recorded in the field
  \<open>calls\<close>. The Docker daemon and the host answer through the fields of an
  environment record: each answer is a function of the calls issued before it, so any
  deterministic daemon is an instance. A Python exception is a value of type \<open>exn\<close>;
  an operation returns either an exception or a result, together with the manager as the
  operation left it.
\<close>

subsection \<open>Users, exceptions, containers\<close>

datatype WcEnvUser = root | container_user

fun WcEnvUser_value :: "WcEnvUser \<Rightarrow> int" where
  "WcEnvUser_value root = 0"
| "WcEnvUser_value container_user = 999"

fun WcEnvUser_name :: "WcEnvUser \<Rightarrow> string" where
  "WcEnvUser_name root = ''root''"
| "WcEnvUser_name container_user = ''container_user''"

text \<open>
  The exception classes that can reach a caller. \<open>WcEnvManagerError\<close> is the only class
  the module defines; the others come from requests, docker-py, subprocess and the Python
  runtime. Each carries the text that \<open>str(exception)\<close> returns; \<open>OtherException\<close>
  stands for any other subclass of \<open>Exception\<close> and carries the class name as well.
  \<open>KeyboardInterrupt\<close> and \<open>SystemExit\<close> are the exceptions that are not subclasses
  of \<open>Exception\<close>: an \<open>except Exception\<close> clause does not catch them.
\<close>

datatype exn =
    WcEnvManagerError string
  | ConnectionError string
  | APIError string
  | ImageNotFound string
  | BuildError string
  | CalledProcessError int "string list"
  | ValueError string
  | IndexError string
  | AttributeError string
  | AssertionError
  | OtherException string string
  | KeyboardInterrupt
  | SystemExit string

fun class_name :: "exn \<Rightarrow> string" where
  "class_name (WcEnvManagerError m) = ''WcEnvManagerError''"
| "class_name (ConnectionError m) = ''ConnectionError''"
| "class_name (APIError m) = ''APIError''"
| "class_name (ImageNotFound m) = ''ImageNotFound''"
| "class_name (BuildError m) = ''BuildError''"
| "class_name (CalledProcessError n c) = ''CalledProcessError''"
| "class_name (ValueError m) = ''ValueError''"
| "class_name (IndexError m) = ''IndexError''"
| "class_name (AttributeError m) = ''AttributeError''"
| "class_name AssertionError = ''AssertionError''"
| "class_name (OtherException c m) = c"
| "class_name KeyboardInterrupt = ''KeyboardInterrupt''"
| "class_name (SystemExit m) = ''SystemExit''"

fun is_Exception :: "exn \<Rightarrow> bool" where
  "is_Exception KeyboardInterrupt = False"
| "is_Exception (SystemExit m) = False"
| "is_Exception e = True"

record mount_attrs =
  bind :: string
  mode :: string

record copy_attrs =
  host :: string
  container :: string

record container_obj =
  name :: string
  short_id :: string

record image_obj =
  image_id :: string
  tags :: "string list"

text \<open>A command is a string or a list of strings, as \<open>exec_run\<close> accepts both.\<close>

datatype cmd = Shell string | Argv "string list"

text \<open>The capability calls that change or probe the world outside the manager.\<close>

datatype call =
    ExecRun string cmd "string option" "(string \<times> string) list option" string
  | SubprocessRun "string list"
  | ContainersRun string string "(string \<times> mount_attrs) list" bool bool bool string
  | ImagesRemove string bool
  | ImagesBuild string string bool "(string \<times> string) list"
  | ImageTag string string string
  | ImagesGet string
  | Mkstemp string
  | OsWrite string string
  | OsRemove string

subsection \<open>The manager object and its environment\<close>

record WcEnvManager =
  base_docker_image_repo :: string
  base_docker_image_tags :: "string list"
  docker_image_repo :: string
  docker_image_tags :: "string list"
  dockerfile_path :: string
  docker_image_build_args :: "(string \<times> string) list"
  docker_image_context_path :: string
  docker_container_name_format :: string
  paths_to_copy_to_docker_container :: "(string \<times> copy_attrs) list"
  paths_to_mount_to_docker_container :: "(string \<times> mount_attrs) list"
  ssh_key_container_path :: string
  python_version_in_container :: string
  python_packages_from_pypi :: string
  python_packages_from_github :: string
  python_packages_from_host :: string
  dockerhub_username :: string
  dockerhub_password :: string
  verbose :: bool
  docker_image :: "image_obj option"
  docker_container :: "container_obj option"
  calls :: "call list"

text \<open>
  The environment: the host's facts (\<open>os.getcwd()\<close>, \<open>os.environ['HOME']\<close>, the
  clock, the file system) and the answers of the Docker daemon. A dictionary of the
  configuration is an association list in the dictionary's iteration order. \<open>str_cmd\<close>
  and \<open>str_int\<close> are Python's \<open>str\<close> of a command and of an integer;
  \<open>str_signal n\<close> is \<open>repr(signal.Signals(n))\<close>, or \<open>None\<close> where that raises
  \<open>ValueError\<close>.
\<close>

record env =
  getcwd :: string
  environ_HOME :: string
  strftime_now :: "call list \<Rightarrow> string \<Rightarrow> string"
  strptime_ok :: "string \<Rightarrow> string \<Rightarrow> bool"
  isdir :: "call list \<Rightarrow> string \<Rightarrow> bool"
  isfile :: "call list \<Rightarrow> string \<Rightarrow> bool"
  open_file :: "call list \<Rightarrow> string \<Rightarrow> exn option"
  yaml_load :: "call list \<Rightarrow> string \<Rightarrow> exn + (string \<times> string) list"
  os_call :: "call list \<Rightarrow> call \<Rightarrow> exn + unit"
  mkstemp :: "call list \<Rightarrow> call \<Rightarrow> exn + string"
  exec_run :: "call list \<Rightarrow> call \<Rightarrow> exn + (string \<times> int)"
  subprocess_run :: "call list \<Rightarrow> call \<Rightarrow> exn + int"
  containers_run :: "call list \<Rightarrow> call \<Rightarrow> exn + container_obj"
  containers_list :: "bool \<Rightarrow> exn + container_obj list"
  stats_read :: "container_obj \<Rightarrow> exn + int"
  images_build :: "call list \<Rightarrow> call \<Rightarrow> exn + image_obj"
  image_tag :: "call list \<Rightarrow> call \<Rightarrow> exn + unit"
  images_get :: "call list \<Rightarrow> call \<Rightarrow> exn + image_obj"
  images_remove :: "call list \<Rightarrow> call \<Rightarrow> exn + unit"
  str_cmd :: "cmd \<Rightarrow> string"
  str_int :: "int \<Rightarrow> string"
  str_signal :: "int \<Rightarrow> string option"

subsection \<open>Sequencing operations\<close>

type_synonym 'a action = "WcEnvManager \<Rightarrow> (exn + 'a) \<times> WcEnvManager"

definition ret :: "'a \<Rightarrow> 'a action" where
  "ret x = (\<lambda>s. (Inr x, s))"

definition raise :: "exn \<Rightarrow> 'a action" where
  "raise e = (\<lambda>s. (Inl e, s))"

definition seq :: "'a action \<Rightarrow> ('a \<Rightarrow> 'b action) \<Rightarrow> 'b action" where
  "seq m f = (\<lambda>s. case m s of (Inl e, s') \<Rightarrow> (Inl e, s') | (Inr x, s') \<Rightarrow> f x s')"

text \<open>One capability call: it is recorded, and the environment answers from the history.\<close>

definition perform :: "(call list \<Rightarrow> call \<Rightarrow> exn + 'a) \<Rightarrow> call \<Rightarrow> 'a action" where
  "perform answer c = (\<lambda>s. (answer (calls s) c, s\<lparr>calls := calls s @ [c]\<rparr>))"

text \<open>A \<open>for\<close> loop over a list whose body may raise.\<close>

fun for_each :: "'a list \<Rightarrow> ('a \<Rightarrow> unit action) \<Rightarrow> unit action" where
  "for_each [] body = ret ()"
| "for_each (x # xs) body = seq (body x) (\<lambda>_. for_each xs body)"

subsection \<open>Removing image versions\<close>

text \<open>
  \<^verbatim>\<open>
  def remove_docker_image(self, image_repo, image_tags, force=False):
      for tag in image_tags:
          self._docker_client.images.remove('{}:{}'.format(image_repo, tag), force=True)
  \<close>
\<close>

definition remove_docker_image ::
  "env \<Rightarrow> string \<Rightarrow> string list \<Rightarrow> bool \<Rightarrow> unit action" where
  "remove_docker_image E image_repo image_tags force =
     for_each image_tags
       (\<lambda>tag. perform (images_remove E) (ImagesRemove (image_repo @ '':'' @ tag) True))"

subsection \<open>Python's posixpath\<close>

text \<open>
  The path functions the manager calls, as Python's \<open>posixpath\<close> module defines them on
  strings (the host is a POSIX system). \<open>split_sep\<close> is \<open>str.split('/')\<close>,
  \<open>join_sep\<close> is \<open>'/'.join\<close>.
\<close>

fun split_sep :: "string \<Rightarrow> string list" where
  "split_sep [] = [[]]"
| "split_sep (c # cs) =
     (if c = CHR ''/'' then [] # split_sep cs
      else (case split_sep cs of [] \<Rightarrow> [[c]] | x # xs \<Rightarrow> (c # x) # xs))"

fun join_sep :: "string list \<Rightarrow> string" where
  "join_sep [] = []"
| "join_sep [x] = x"
| "join_sep (x # y # ys) = x @ ''/'' @ join_sep (y # ys)"

definition isabs :: "string \<Rightarrow> bool" where
  "isabs p = prefix ''/'' p"

text \<open>
  \<^verbatim>\<open>
  def join(a, *p):
      path = a
      for b in p:
          if b.startswith(sep):              path = b
          elif not path or path.endswith(sep): path += b
          else:                              path += sep + b
      return path
  \<close>
\<close>

definition path_join2 :: "string \<Rightarrow> string \<Rightarrow> string" where
  "path_join2 path b =
     (if prefix ''/'' b then b
      else if path = [] \<or> suffix ''/'' path then path @ b
      else path @ ''/'' @ b)"

definition path_join :: "string \<Rightarrow> string list \<Rightarrow> string" where
  "path_join a p = foldl path_join2 a p"

text \<open>
  \<^verbatim>\<open>
  def normpath(path):
      if path == '': return '.'
      initial_slashes = path.startswith('/')
      if (initial_slashes and path.startswith('//') and not path.startswith('///')):
          initial_slashes = 2
      comps = path.split('/')
      new_comps = []
      for comp in comps:
          if comp in ('', '.'): continue
          if (comp != '..' or (not initial_slashes and not new_comps) or
               (new_comps and new_comps[-1] == '..')):
              new_comps.append(comp)
          elif new_comps:
              new_comps.pop()
      comps = new_comps
      path = '/'.join(comps)
      if initial_slashes: path = '/'*initial_slashes + path
      return path or '.'
  \<close>
\<close>

definition initial_slashes :: "string \<Rightarrow> nat" where
  "initial_slashes path =
     (if prefix ''/'' path
      then (if prefix ''//'' path \<and> \<not> prefix ''///'' path then 2 else 1)
      else 0)"

definition normpath_step :: "nat \<Rightarrow> string list \<Rightarrow> string \<Rightarrow> string list" where
  "normpath_step init new_comps c =
     (if c = [] \<or> c = ''.'' then new_comps
      else if c \<noteq> ''..'' \<or> (init = 0 \<and> new_comps = [])
              \<or> (new_comps \<noteq> [] \<and> last new_comps = ''..'')
      then new_comps @ [c]
      else if new_comps \<noteq> [] then butlast new_comps
      else new_comps)"

definition normpath :: "string \<Rightarrow> string" where
  "normpath path =
     (if path = [] then ''.''
      else let init = initial_slashes path;
               comps = foldl (normpath_step init) [] (split_sep path);
               joined = join_sep comps;
               res = (if init \<noteq> 0 then replicate init (CHR ''/'') @ joined else joined)
           in if res = [] then ''.'' else res)"

text \<open>
  \<^verbatim>\<open>
  def abspath(path):
      if not isabs(path):
          cwd = os.getcwd()
          path = join(cwd, path)
      return normpath(path)
  \<close>
\<close>

definition abspath :: "string \<Rightarrow> string \<Rightarrow> string" where
  "abspath cwd path = normpath (if isabs path then path else path_join2 cwd path)"

text \<open>
  \<^verbatim>\<open>
  def relpath(path, start=None):
      if not path: raise ValueError("no path specified")
      start_list = [x for x in abspath(start).split('/') if x]
      path_list = [x for x in abspath(path).split('/') if x]
      i = len(commonprefix([start_list, path_list]))
      rel_list = ['..'] * (len(start_list)-i) + path_list[i:]
      if not rel_list: return '.'
      return join(*rel_list)
  \<close>
  \<open>commonprefix\<close> of two lists is their longest common prefix.
\<close>

definition components :: "string \<Rightarrow> string list" where
  "components p = filter (\<lambda>x. x \<noteq> []) (split_sep p)"

definition relpath :: "string \<Rightarrow> string \<Rightarrow> string \<Rightarrow> exn + string" where
  "relpath cwd path start =
     (if path = [] then Inl (ValueError ''no path specified'')
      else let start_list = components (abspath cwd start);
               path_list = components (abspath cwd path);
               i = length (longest_common_prefix start_list path_list);
               rel_list = replicate (length start_list - i) ''..'' @ drop i path_list
           in (case rel_list of [] \<Rightarrow> Inr ''.'' | a # p \<Rightarrow> Inr (path_join a p)))"

text \<open>
  \<^verbatim>\<open>
  def dirname(p):
      i = p.rfind('/') + 1
      head = p[:i]
      if head and head != '/'*len(head): head = head.rstrip('/')
      return head
  \<close>
\<close>

definition rstrip_sep :: "string \<Rightarrow> string" where
  "rstrip_sep p = rev (dropWhile (\<lambda>c. c = CHR ''/'') (rev p))"

definition dirname :: "string \<Rightarrow> string" where
  "dirname p =
     (let head = rev (dropWhile (\<lambda>c. c \<noteq> CHR ''/'') (rev p))
      in if head \<noteq> [] \<and> head \<noteq> replicate (length head) (CHR ''/'') then rstrip_sep head
         else head)"

text \<open>
  \<open>expanduser\<close> for the current user, with \<open>HOME\<close> set:
  \<^verbatim>\<open>
  def expanduser(path):
      if not path.startswith('~'): return path
      i = path.find('/', 1)
      if i < 0: i = len(path)
      if i == 1: userhome = os.environ['HOME']
      else: ...                      # ~name: the password database
      userhome = userhome.rstrip('/')
      return (userhome + path[i:]) or '/'
  \<close>
  The password database is not part of the model: a path \<open>~name\<close> is returned unchanged,
  as Python does for an unknown user.
\<close>

definition expanduser :: "env \<Rightarrow> string \<Rightarrow> string" where
  "expanduser E path =
     (if \<not> prefix ''~'' path then path
      else let i = Suc (length (takeWhile (\<lambda>c. c \<noteq> CHR ''/'') (tl path)))
           in if i = 1
              then (let r = rstrip_sep (environ_HOME E) @ drop i path
                    in if r = [] then ''/'' else r)
              else path)"

subsection \<open>Running processes\<close>

definition dquote :: string where
  "dquote = [CHR 0x22]"

definition squote :: string where
  "squote = [CHR 0x27]"

fun join_str :: "string \<Rightarrow> string list \<Rightarrow> string" where
  "join_str d [] = []"
| "join_str d [x] = x"
| "join_str d (x # y # ys) = x @ d @ join_str d (y # ys)"

text \<open>
  The current container, \<open>self._docker_container\<close>; an attribute of \<open>None\<close> raises
  \<open>AttributeError\<close>.
\<close>

definition current_container :: "string \<Rightarrow> container_obj action" where
  "current_container attr =
     (\<lambda>s. case docker_container s of
            None \<Rightarrow> (Inl (AttributeError
                     (squote @ ''NoneType'' @ squote @ '' object has no attribute '' @ squote @ attr @ squote)), s)
          | Some c \<Rightarrow> (Inr c, s))"

text \<open>
  \<^verbatim>\<open>
  def run_process_in_docker_container(self, cmd, work_dir=None, env=None, check=True,
                                      container_user=WcEnvUser.root):
      if not env: env = {}
      result = self._docker_container.exec_run(
          cmd, workdir=work_dir, environment=env, user=container_user.name)
      if self.verbose: print(result.output.decode('utf-8')[0:-1])
      if check and result.exit_code != 0:
          if not work_dir:
              result2 = self._docker_container.exec_run('pwd', user=container_user.name)
              work_dir = result2.output.decode('utf-8')[0:-1]
          raise WcEnvManagerError(
              ('Command not successfully executed in Docker container:\n'
               '  command: {}\n' '  working directory: {}\n' '  environment:\n    {}\n'
               '  exit code: {}\n' '  output: {}').format(
                  cmd, work_dir,
                  '\n    '.join('{}: {}'.format(key, val) for key, val in env.items()),
                  result.exit_code, result.output.decode('utf-8')))
      return (result.output.decode('utf-8')[0:-1], result.exit_code)
  \<close>
  The output is taken as the decoded text; \<open>[0:-1]\<close> drops its last character. Printing
  is not modelled.
\<close>

definition command_error_message ::
  "env \<Rightarrow> cmd \<Rightarrow> string \<Rightarrow> (string \<times> string) list \<Rightarrow> int \<Rightarrow> string \<Rightarrow> string" where
  "command_error_message E cmd work_dir env exit_code output =
     ''Command not successfully executed in Docker container:\<newline>''
     @ ''  command: '' @ str_cmd E cmd @ ''\<newline>''
     @ ''  working directory: '' @ work_dir @ ''\<newline>''
     @ ''  environment:\<newline>    ''
     @ join_str ''\<newline>    '' (map (\<lambda>(key, val). key @ '': '' @ val) env) @ ''\<newline>''
     @ ''  exit code: '' @ str_int E exit_code @ ''\<newline>''
     @ ''  output: '' @ output"

definition run_process_in_docker_container ::
  "env \<Rightarrow> cmd \<Rightarrow> string option \<Rightarrow> (string \<times> string) list \<Rightarrow> bool \<Rightarrow> WcEnvUser
     \<Rightarrow> (string \<times> int) action" where
  "run_process_in_docker_container E cmd work_dir env check as_user =
     seq (current_container ''exec_run'') (\<lambda>c.
     seq (perform (exec_run E)
            (ExecRun (name c) cmd work_dir (Some env) (WcEnvUser_name as_user)))
       (\<lambda>(output, exit_code).
          if check \<and> exit_code \<noteq> 0
          then seq (case work_dir of
                      Some w \<Rightarrow> if w \<noteq> [] then ret w
                               else seq (perform (exec_run E)
                                           (ExecRun (name c) (Shell ''pwd'') None None
                                              (WcEnvUser_name as_user)))
                                      (\<lambda>(output2, exit_code2). ret (butlast output2))
                    | None \<Rightarrow> seq (perform (exec_run E)
                                           (ExecRun (name c) (Shell ''pwd'') None None
                                              (WcEnvUser_name as_user)))
                                      (\<lambda>(output2, exit_code2). ret (butlast output2)))
                 (\<lambda>wd. raise (WcEnvManagerError
                                (command_error_message E cmd wd env exit_code output)))
          else ret (butlast output, exit_code)))"

text \<open>
  \<^verbatim>\<open>
  def run_process_on_host(self, cmd):
      ...
      subprocess.run(cmd, stdout=stdout, stderr=stderr, check=True)
  \<close>
  With \<open>check=True\<close> a return code other than 0 raises \<open>CalledProcessError\<close>.
\<close>

definition run_process_on_host :: "env \<Rightarrow> string list \<Rightarrow> unit action" where
  "run_process_on_host E cmd =
     seq (perform (subprocess_run E) (SubprocessRun cmd))
       (\<lambda>returncode. if returncode \<noteq> 0 then raise (CalledProcessError returncode cmd)
                      else ret ())"

subsection \<open>Copying a path into the container\<close>

text \<open>
  \<^verbatim>\<open>
  def copy_path_to_docker_container(self, local_path, container_path, overwrite=True,
                                    container_user=WcEnvUser.root):
      is_path, _ = self.run_process_in_docker_container(
          'bash -c "if [ -f {0} ] || [ -d {0} ]; then echo 1; fi"'.format(container_path),
          container_user=container_user)
      if is_path and not overwrite:
          raise WcEnvManagerError('File {} already exists'.format(container_path))
      self.run_process_on_host([
          'docker', 'cp', local_path, self._docker_container.name + ':' + container_path])
  \<close>
\<close>

definition path_check_cmd :: "string \<Rightarrow> cmd" where
  "path_check_cmd container_path =
     Shell (''bash -c '' @ dquote @ ''if [ -f '' @ container_path @ '' ] || [ -d ''
            @ container_path @ '' ]; then echo 1; fi'' @ dquote)"

definition copy_path_to_docker_container ::
  "env \<Rightarrow> string \<Rightarrow> string \<Rightarrow> bool \<Rightarrow> WcEnvUser \<Rightarrow> unit action" where
  "copy_path_to_docker_container E local_path container_path overwrite as_user =
     seq (run_process_in_docker_container E (path_check_cmd container_path) None [] True
            as_user)
       (\<lambda>(is_path, exit_code).
          if is_path \<noteq> [] \<and> \<not> overwrite
          then raise (WcEnvManagerError (''File '' @ container_path @ '' already exists''))
          else seq (current_container ''name'') (\<lambda>c.
                 run_process_on_host E
                   [''docker'', ''cp'', local_path, name c @ '':'' @ container_path]))"

text \<open>
  \<^verbatim>\<open>
  def copy_path_from_docker_container(self, container_path, local_path, overwrite=True):
      is_file = os.path.isfile(local_path) or os.path.isdir(local_path)
      if is_file and not overwrite:
          raise WcEnvManagerError('File {} already exists'.format(local_path))
      self.run_process_on_host([
          'docker', 'cp', self._docker_container.name + ':' + container_path, local_path])
  \<close>
\<close>

definition copy_path_from_docker_container ::
  "env \<Rightarrow> string \<Rightarrow> string \<Rightarrow> bool \<Rightarrow> unit action" where
  "copy_path_from_docker_container E container_path local_path overwrite =
     (\<lambda>s. if (isfile E (calls s) local_path \<or> isdir E (calls s) local_path) \<and> \<not> overwrite
          then raise (WcEnvManagerError (''File '' @ local_path @ '' already exists'')) s
          else seq (current_container ''name'') (\<lambda>c.
                 run_process_on_host E
                   [''docker'', ''cp'', name c @ '':'' @ container_path, local_path]) s)"

text \<open>The copy actions among a list of calls: the \<open>docker cp\<close> processes run on the host.\<close>

fun is_copy_action :: "call \<Rightarrow> bool" where
  "is_copy_action (SubprocessRun (a # b # rest)) = (a = ''docker'' \<and> b = ''cp'')"
| "is_copy_action c = False"

subsection \<open>SSH access to GitHub\<close>

text \<open>
  \<^verbatim>\<open>
  def install_github_ssh_host_in_docker_container(self, upgrade=False):
      self.run_process_in_docker_container('bash -c "touch ~/.ssh/known_hosts"',
                                           container_user=WcEnvUser.root)
      if upgrade:
          self.run_process_in_docker_container(
              'bash -c "sed -i \'/github.com ssh-rsa/d\' ~/.ssh/known_hosts"',
              container_user=WcEnvUser.root)
      self.run_process_in_docker_container('bash -c "ssh-keyscan github.com >> ~/.ssh/known_hosts"',
                                           container_user=WcEnvUser.root)
  \<close>
\<close>

definition install_github_ssh_host_in_docker_container :: "env \<Rightarrow> bool \<Rightarrow> unit action" where
  "install_github_ssh_host_in_docker_container E upgrade =
     seq (run_process_in_docker_container E
            (Shell (''bash -c '' @ dquote @ ''touch ~/.ssh/known_hosts'' @ dquote)) None [] True root)
       (\<lambda>r1.
     seq (if upgrade
          then seq (run_process_in_docker_container E
                      (Shell (''bash -c '' @ dquote @ ''sed -i '' @ squote @ ''/github.com ssh-rsa/d''
                              @ squote @ '' ~/.ssh/known_hosts'' @ dquote)) None [] True root)
                 (\<lambda>r2. ret ())
          else ret ())
       (\<lambda>u.
     seq (run_process_in_docker_container E
            (Shell (''bash -c '' @ dquote @ ''ssh-keyscan github.com >> ~/.ssh/known_hosts'' @ dquote))
            None [] True root)
       (\<lambda>r3. ret ())))"

text \<open>
  \<^verbatim>\<open>
  def test_github_ssh_access_in_docker_container(self):
      message, exit_code = self.run_process_in_docker_container('ssh -T git@github.com',
                                                                check=False, container_user=WcEnvUser.root)
      return exit_code == 1 and re.search(r'successfully authenticated', message) is not None
  \<close>
  The pattern has no metacharacter: \<open>re.search\<close> finds it where it occurs as a substring.
\<close>

definition re_search :: "string \<Rightarrow> string \<Rightarrow> bool" where
  "re_search pattern text = sublist pattern text"

definition test_github_ssh_access_in_docker_container :: "env \<Rightarrow> bool action" where
  "test_github_ssh_access_in_docker_container E =
     seq (run_process_in_docker_container E (Shell ''ssh -T git@github.com'') None [] False root)
       (\<lambda>(message, exit_code).
          ret (exit_code = 1 \<and> re_search ''successfully authenticated'' message))"

subsection \<open>Installing Python packages\<close>

text \<open>
  \<^verbatim>\<open>
  def install_python_packages_in_docker_container(self, packages, upgrade=False,
                                                  process_dependency_links=False):
      file, host_temp_filename = tempfile.mkstemp(suffix='.txt')
      os.write(file, packages.encode('utf-8'))
      os.close(file)
      container_temp_filename, _ = self.run_process_in_docker_container('mktemp', container_user=WcEnvUser.root)
      self.copy_path_to_docker_container(host_temp_filename, container_temp_filename)
      cmd = ['pip{}'.format(self.python_version_in_container), 'install', '-r', container_temp_filename]
      if upgrade: cmd.append('-U')
      if process_dependency_links: cmd.append('--process-dependency-links')
      self.run_process_in_docker_container(cmd, container_user=WcEnvUser.root)
      os.remove(host_temp_filename)
      self.run_process_in_docker_container(['rm', container_temp_filename], container_user=WcEnvUser.root)
  \<close>
  There is no test of \<open>packages\<close>: an empty list is written and installed like any other.
\<close>

definition pip_install_cmd :: "string \<Rightarrow> string \<Rightarrow> bool \<Rightarrow> bool \<Rightarrow> cmd" where
  "pip_install_cmd version container_temp_filename upgrade process_dependency_links =
     Argv ([''pip'' @ version, ''install'', ''-r'', container_temp_filename]
           @ (if upgrade then [''-U''] else [])
           @ (if process_dependency_links then [''--process-dependency-links''] else []))"

definition install_python_packages_in_docker_container ::
  "env \<Rightarrow> string \<Rightarrow> bool \<Rightarrow> bool \<Rightarrow> unit action" where
  "install_python_packages_in_docker_container E packages upgrade process_dependency_links =
     seq (perform (mkstemp E) (Mkstemp ''.txt'')) (\<lambda>host_temp_filename.
     seq (perform (os_call E) (OsWrite host_temp_filename packages)) (\<lambda>u1.
     seq (run_process_in_docker_container E (Shell ''mktemp'') None [] True root)
       (\<lambda>(container_temp_filename, exit_code).
     seq (copy_path_to_docker_container E host_temp_filename container_temp_filename True root)
       (\<lambda>u2.
     seq (\<lambda>s. run_process_in_docker_container E
                 (pip_install_cmd (python_version_in_container s) container_temp_filename
                    upgrade process_dependency_links) None [] True root s)
       (\<lambda>r.
     seq (perform (os_call E) (OsRemove host_temp_filename)) (\<lambda>u3.
     seq (run_process_in_docker_container E (Argv [''rm'', container_temp_filename]) None [] True root)
       (\<lambda>r2. ret ())))))))"

text \<open>
  A package-install step among the calls is an \<open>exec_run\<close> of \<open>pip... install -r ...\<close>;
  the package list it installs is the one written to the host's temporary file before it.
\<close>

fun is_pip_cmd :: "cmd \<Rightarrow> bool" where
  "is_pip_cmd (Argv (p # i # r # rest)) = (prefix ''pip'' p \<and> i = ''install'' \<and> r = ''-r'')"
| "is_pip_cmd c = False"

fun is_install_call :: "call \<Rightarrow> bool" where
  "is_install_call (ExecRun n c w e u) = is_pip_cmd c"
| "is_install_call (OsWrite f d) = True"
| "is_install_call c = False"

definition install_trace :: "call list \<Rightarrow> call list" where
  "install_trace cs = filter is_install_call cs"

fun is_install_step :: "call \<Rightarrow> bool" where
  "is_install_step (ExecRun n c w e u) = is_pip_cmd c"
| "is_install_step c = False"

subsection \<open>Copying the configuration files\<close>

text \<open>
  \<^verbatim>\<open>
  def copy_config_files_to_docker_container(self, overwrite=False):
      container_user_dirname, _ = self.run_process_in_docker_container('bash -c "realpath ~"',
                                                                       container_user=WcEnvUser.root)
      container_config_dirname = os.path.join(container_user_dirname, '.wc')
      host_config_dirname = os.path.expanduser(os.path.join('~', '.wc'))
      if os.path.isdir(host_config_dirname):
          self.copy_path_to_docker_container(host_config_dirname, container_config_dirname,
              container_user=WcEnvUser.root, overwrite=overwrite)
          filename = os.path.join(host_config_dirname, 'third_party', 'paths.yml')
          with open(filename, 'r') as file:
              paths = yaml.load(file)
          for rel_src, abs_dest in paths.items():
              if abs_dest[0:2] == '~/':
                  abs_dest = os.path.join(container_user_dirname, abs_dest[2:])
              abs_dest_dir = os.path.dirname(abs_dest)
              self.run_process_in_docker_container(['mkdir', '-p', abs_dest_dir],
                                                   container_user=WcEnvUser.root)
              abs_src = os.path.join(host_config_dirname, 'third_party', rel_src)
              self.copy_path_to_docker_container(abs_src, abs_dest, container_user=WcEnvUser.root, overwrite=overwrite)
  \<close>
  Opening and parsing \<open>paths.yml\<close> is one answer of the environment: the mapping the file
  holds, or the exception raised.
\<close>

definition copy_third_party_path ::
  "env \<Rightarrow> string \<Rightarrow> string \<Rightarrow> bool \<Rightarrow> string \<times> string \<Rightarrow> unit action" where
  "copy_third_party_path E container_user_dirname host_config_dirname overwrite entry =
     (case entry of (rel_src, abs_dest0) \<Rightarrow>
        let abs_dest = (if take 2 abs_dest0 = ''~/''
                        then path_join2 container_user_dirname (drop 2 abs_dest0)
                        else abs_dest0);
            abs_dest_dir = dirname abs_dest
        in seq (run_process_in_docker_container E (Argv [''mkdir'', ''-p'', abs_dest_dir])
                  None [] True root)
             (\<lambda>r. let abs_src = path_join host_config_dirname [''third_party'', rel_src]
                   in copy_path_to_docker_container E abs_src abs_dest overwrite root))"

definition copy_config_files_to_docker_container :: "env \<Rightarrow> bool \<Rightarrow> unit action" where
  "copy_config_files_to_docker_container E overwrite =
     seq (run_process_in_docker_container E
            (Shell (''bash -c '' @ dquote @ ''realpath ~'' @ dquote)) None [] True root)
       (\<lambda>(container_user_dirname, exit_code).
          let container_config_dirname = path_join2 container_user_dirname ''.wc'';
              host_config_dirname = expanduser E (path_join2 ''~'' ''.wc'')
          in (\<lambda>s. if isdir E (calls s) host_config_dirname
                   then seq (copy_path_to_docker_container E host_config_dirname
                               container_config_dirname overwrite root)
                          (\<lambda>u.
                        seq (\<lambda>s'. (yaml_load E (calls s')
                                      (path_join host_config_dirname [''third_party'', ''paths.yml'']),
                                    s'))
                          (\<lambda>paths.
                             for_each paths
                               (copy_third_party_path E container_user_dirname
                                  host_config_dirname overwrite))) s
                   else ret () s))"

subsection \<open>Setting up the container\<close>

text \<open>
  \<^verbatim>\<open>
  def setup_docker_container(self, upgrade=False):
      container = self._docker_container
      self.copy_config_files_to_docker_container(overwrite=upgrade)
      for path in self.paths_to_copy_to_docker_container.values():
          self.copy_path_to_docker_container(path['host'], path['container'], overwrite=upgrade)
      self.install_github_ssh_host_in_docker_container(upgrade=upgrade)
      assert(self.test_github_ssh_access_in_docker_container())
      self.install_python_packages_in_docker_container(self.python_packages_from_pypi, upgrade=upgrade)
      self.install_python_packages_in_docker_container(self.python_packages_from_github, upgrade=upgrade, process_dependency_links=True)
      self.install_python_packages_in_docker_container(self.python_packages_from_host, upgrade=upgrade, process_dependency_links=True)
  \<close>
\<close>

definition setup_docker_container :: "env \<Rightarrow> bool \<Rightarrow> unit action" where
  "setup_docker_container E upgrade =
     seq (copy_config_files_to_docker_container E upgrade) (\<lambda>u1.
     seq (\<lambda>s. for_each (map snd (paths_to_copy_to_docker_container s))
                 (\<lambda>path. copy_path_to_docker_container E (host path) (container path) upgrade root) s)
       (\<lambda>u2.
     seq (install_github_ssh_host_in_docker_container E upgrade) (\<lambda>u3.
     seq (test_github_ssh_access_in_docker_container E) (\<lambda>ok.
     seq (if ok then ret () else raise AssertionError) (\<lambda>u4.
     seq (\<lambda>s. install_python_packages_in_docker_container E
                 (python_packages_from_pypi s) upgrade False s) (\<lambda>u5.
     seq (\<lambda>s. install_python_packages_in_docker_container E
                 (python_packages_from_github s) upgrade True s) (\<lambda>u6.
     (\<lambda>s. install_python_packages_in_docker_container E
                 (python_packages_from_host s) upgrade True s))))))))"

subsection \<open>Creating a container\<close>

text \<open>
  \<^verbatim>\<open>
  def make_docker_container_name(self):
      return datetime.now().strftime(self.docker_container_name_format)

  def create_docker_container(self, tty=True):
      name = self.make_docker_container_name()
      container = self._docker_container = self._docker_client.containers.run(
          self.base_docker_image_repo, name=name,
          volumes=self.paths_to_mount_to_docker_container,
          stdin_open=True, tty=tty,
          detach=True,
          user=WcEnvUser.root.name)
      return container
  \<close>
\<close>

definition make_docker_container_name :: "env \<Rightarrow> string action" where
  "make_docker_container_name E =
     (\<lambda>s. (Inr (strftime_now E (calls s) (docker_container_name_format s)), s))"

definition create_docker_container :: "env \<Rightarrow> bool \<Rightarrow> container_obj action" where
  "create_docker_container E tty =
     seq (make_docker_container_name E) (\<lambda>container_name.
     seq (\<lambda>s. perform (containers_run E)
                 (ContainersRun (base_docker_image_repo s) container_name
                    (paths_to_mount_to_docker_container s) True tty True (WcEnvUser_name root)) s)
       (\<lambda>c s. (Inr c, s\<lparr>docker_container := Some c\<rparr>)))"

text \<open>The execution identity a call to \<open>containers.run\<close> carries.\<close>

fun run_user :: "call \<Rightarrow> string option" where
  "run_user (ContainersRun img n volumes stdin_open tty detach user) = Some user"
| "run_user c = None"

subsection \<open>Listing the containers\<close>

text \<open>
  \<^verbatim>\<open>
  def get_docker_containers(self, sort_by_read_time=False):
      containers = []
      for container in self._docker_client.containers.list(all=True):
          try:
              datetime.strptime(container.name, self.docker_container_name_format)
              containers.append(container)
          except ValueError:
              pass
      if sort_by_read_time:
          containers.sort(reverse=True, key=lambda container: dateutil.parser.parse(container.stats(stream=False)['read']))
      return containers

  def get_latest_docker_container(self):
      containers = self.get_docker_containers(sort_by_read_time=True)
      if containers: return containers[0]
      else: return None
  \<close>
  \<open>stats_read\<close> is the parsed \<open>read\<close> time of a container's statistics, as an integer
  time stamp, or the exception raised on the way. Python computes the key of every element
  once, in list order, and sorts stably; with \<open>reverse=True\<close> it reverses the list, sorts
  in ascending order and reverses the result, so equal keys keep their order.
\<close>

fun read_times :: "env \<Rightarrow> container_obj list \<Rightarrow> exn + int list" where
  "read_times E [] = Inr []"
| "read_times E (c # cs) =
     (case stats_read E c of
        Inl e \<Rightarrow> Inl e
      | Inr t \<Rightarrow> (case read_times E cs of Inl e \<Rightarrow> Inl e | Inr ts \<Rightarrow> Inr (t # ts)))"

definition sort_reverse :: "int list \<Rightarrow> 'a list \<Rightarrow> 'a list" where
  "sort_reverse keys xs = map snd (rev (sort_key fst (rev (zip keys xs))))"

definition is_managed :: "env \<Rightarrow> WcEnvManager \<Rightarrow> container_obj \<Rightarrow> bool" where
  "is_managed E self c = strptime_ok E (name c) (docker_container_name_format self)"

definition get_docker_containers :: "env \<Rightarrow> bool \<Rightarrow> container_obj list action" where
  "get_docker_containers E sort_by_read_time =
     (\<lambda>s. case containers_list E True of
            Inl e \<Rightarrow> (Inl e, s)
          | Inr listed \<Rightarrow>
              let containers = filter (is_managed E s) listed
              in if sort_by_read_time
                 then (case read_times E containers of
                         Inl e \<Rightarrow> (Inl e, s)
                       | Inr keys \<Rightarrow> (Inr (sort_reverse keys containers), s))
                 else (Inr containers, s))"

definition get_latest_docker_container :: "env \<Rightarrow> container_obj option action" where
  "get_latest_docker_container E =
     seq (get_docker_containers E True)
       (\<lambda>containers. case containers of [] \<Rightarrow> ret None | c # rest \<Rightarrow> ret (Some c))"

subsection \<open>Building the base image\<close>

text \<open>
  \<^verbatim>\<open>
  def build_base_docker_image(self):
      if not os.path.isdir(self.docker_image_context_path):
          raise WcEnvManagerError('Docker image context "{}" must be a directory'.format(
              self.docker_image_context_path))
      with open(self.dockerfile_path, 'rb') as dockerfile:
          try:
              image, log = self._docker_client.images.build(
                  path=self.docker_image_context_path, fileobj=dockerfile, pull=True,
                  buildargs=self.docker_image_build_args)
          except requests.exceptions.ConnectionError as exception:
              raise WcEnvManagerError("Docker connection error: service must be running:\n  {}".format(
                  str(exception).replace('\n', '\n  ')))
          except docker.errors.APIError as exception:
              raise WcEnvManagerError("Docker API error: Dockerfile contains syntax errors:\n  {}".format(
                  str(exception).replace('\n', '\n  ')))
          except docker.errors.BuildError as exception:
              raise WcEnvManagerError("Docker build error: Error building Dockerfile:\n  {}".format(
                  str(exception).replace('\n', '\n  ')))
          except Exception as exception:
              raise WcEnvManagerError("{}:\n  {}".format(
                  exception.__class__.__name__, str(exception).replace('\n', '\n  ')))
      for tag in self.base_docker_image_tags:
          image.tag(self.base_docker_image_repo, tag=tag)
      image = self._docker_client.images.get('{}:{}'.format(self.base_docker_image_repo, self.base_docker_image_tags[0]))
      self._docker_image = image
      return image
  \<close>
  \<open>ImageNotFound\<close> is a subclass of \<open>APIError\<close> and is caught with it. The last
  clause catches the subclasses of \<open>Exception\<close> only: \<open>KeyboardInterrupt\<close> and
  \<open>SystemExit\<close> leave the \<open>try\<close> statement as they are. \<open>str\<close> of a
  \<open>CalledProcessError\<close> is
  \<^verbatim>\<open>
  if self.returncode and self.returncode < 0:
      try:
          return "Command '%s' died with %r." % (self.cmd, signal.Signals(-self.returncode))
      except ValueError:
          return "Command '%s' died with unknown signal %d." % (self.cmd, -self.returncode)
  else:
      return "Command '%s' returned non-zero exit status %d." % (self.cmd, self.returncode)
  \<close>
\<close>

fun exn_str :: "env \<Rightarrow> exn \<Rightarrow> string" where
  "exn_str E (WcEnvManagerError m) = m"
| "exn_str E (ConnectionError m) = m"
| "exn_str E (APIError m) = m"
| "exn_str E (ImageNotFound m) = m"
| "exn_str E (BuildError m) = m"
| "exn_str E (CalledProcessError n c) =
     (if n < 0
      then (case str_signal E (- n) of
              Some sig \<Rightarrow> ''Command '' @ squote @ str_cmd E (Argv c) @ squote
                          @ '' died with '' @ sig @ ''.''
            | None \<Rightarrow> ''Command '' @ squote @ str_cmd E (Argv c) @ squote
                          @ '' died with unknown signal '' @ str_int E (- n) @ ''.'')
      else ''Command '' @ squote @ str_cmd E (Argv c) @ squote
             @ '' returned non-zero exit status '' @ str_int E n @ ''.'')"
| "exn_str E (ValueError m) = m"
| "exn_str E (IndexError m) = m"
| "exn_str E (AttributeError m) = m"
| "exn_str E AssertionError = []"
| "exn_str E (OtherException c m) = m"
| "exn_str E KeyboardInterrupt = []"
| "exn_str E (SystemExit m) = m"

definition indent_lines :: "string \<Rightarrow> string" where
  "indent_lines text = concat (map (\<lambda>c. if c = CHR ''\<newline>'' then ''\<newline>  '' else [c]) text)"

fun build_error :: "env \<Rightarrow> exn \<Rightarrow> exn" where
  "build_error E (ConnectionError m) =
     WcEnvManagerError (''Docker connection error: service must be running:\<newline>  '' @ indent_lines m)"
| "build_error E (APIError m) =
     WcEnvManagerError (''Docker API error: Dockerfile contains syntax errors:\<newline>  '' @ indent_lines m)"
| "build_error E (ImageNotFound m) =
     WcEnvManagerError (''Docker API error: Dockerfile contains syntax errors:\<newline>  '' @ indent_lines m)"
| "build_error E (BuildError m) =
     WcEnvManagerError (''Docker build error: Error building Dockerfile:\<newline>  '' @ indent_lines m)"
| "build_error E KeyboardInterrupt = KeyboardInterrupt"
| "build_error E (SystemExit m) = SystemExit m"
| "build_error E e =
     WcEnvManagerError (class_name e @ '':\<newline>  '' @ indent_lines (exn_str E e))"

definition build_base_docker_image :: "env \<Rightarrow> image_obj action" where
  "build_base_docker_image E =
     (\<lambda>s. if \<not> isdir E (calls s) (docker_image_context_path s)
          then (Inl (WcEnvManagerError (''Docker image context '' @ dquote
                       @ docker_image_context_path s @ dquote @ '' must be a directory'')), s)
          else (case open_file E (calls s) (dockerfile_path s) of
                  Some e \<Rightarrow> (Inl e, s)
                | None \<Rightarrow>
                   (case perform (images_build E)
                           (ImagesBuild (docker_image_context_path s) (dockerfile_path s) True
                              (docker_image_build_args s)) s of
                      (Inl e, s1) \<Rightarrow> (Inl (build_error E e), s1)
                    | (Inr img, s1) \<Rightarrow>
                        seq (for_each (base_docker_image_tags s1)
                               (\<lambda>tag. perform (image_tag E)
                                        (ImageTag (image_id img) (base_docker_image_repo s1) tag)))
                          (\<lambda>u.
                        seq (case base_docker_image_tags s1 of
                               [] \<Rightarrow> raise (IndexError ''list index out of range'')
                             | tag0 # rest \<Rightarrow>
                                 perform (images_get E)
                                   (ImagesGet (base_docker_image_repo s1 @ '':'' @ tag0)))
                          (\<lambda>image2 s2. (Inr image2, s2\<lparr>docker_image := Some image2\<rparr>))) s1)))"

text \<open>The class under which a failure reaches the caller.\<close>

definition failure_kind :: "exn + 'a \<Rightarrow> string option" where
  "failure_kind r = (case r of Inl e \<Rightarrow> Some (class_name e) | Inr x \<Rightarrow> None)"

subsection \<open>Converting between host and container paths\<close>

text \<open>
  \<^verbatim>\<open>
  def convert_host_to_container_path(self, host_path):
      host_path = os.path.abspath(host_path)
      for host_mount_path, container_mount_attrs in self.paths_to_mount_to_docker_container.items():
          host_mount_path = os.path.abspath(host_mount_path)
          container_mount_path = container_mount_attrs['bind']
          if host_path.startswith(host_mount_path):
              relpath = os.path.relpath(host_path, host_mount_path)
              return os.path.join(container_mount_path, relpath)
      raise WcEnvManagerError('{} is not mounted into the container'.format(host_path))
  \<close>
  The loop runs over the mount table in the dictionary's order; the first entry that
  passes the \<open>startswith\<close> test decides.
\<close>

fun host_to_container_loop ::
  "string \<Rightarrow> string \<Rightarrow> (string \<times> mount_attrs) list \<Rightarrow> exn + string" where
  "host_to_container_loop cwd host_path [] =
     Inl (WcEnvManagerError (host_path @ '' is not mounted into the container''))"
| "host_to_container_loop cwd host_path ((host_mount_path, container_mount_attrs) # rest) =
     (let host_mount_path = abspath cwd host_mount_path;
          container_mount_path = bind container_mount_attrs
      in if prefix host_mount_path host_path
         then (case relpath cwd host_path host_mount_path of
                 Inl e \<Rightarrow> Inl e
               | Inr rel \<Rightarrow> Inr (path_join2 container_mount_path rel))
         else host_to_container_loop cwd host_path rest)"

definition convert_host_to_container_path :: "env \<Rightarrow> WcEnvManager \<Rightarrow> string \<Rightarrow> exn + string" where
  "convert_host_to_container_path E self host_path =
     host_to_container_loop (getcwd E) (abspath (getcwd E) host_path)
       (paths_to_mount_to_docker_container self)"

text \<open>
  \<^verbatim>\<open>
  def convert_container_to_host_path(self, container_path):
      for host_mount_path, container_mount_attrs in self.paths_to_mount_to_docker_container.items():
          container_mount_path = container_mount_attrs['bind']
          if container_path.startswith(container_mount_path):
              relpath = os.path.relpath(container_path, container_mount_path)
              return os.path.join(host_mount_path, relpath)
      raise WcEnvManagerError('{} is not mounted into the container'.format(container_path))
  \<close>
\<close>

fun container_to_host_loop ::
  "string \<Rightarrow> string \<Rightarrow> (string \<times> mount_attrs) list \<Rightarrow> exn + string" where
  "container_to_host_loop cwd container_path [] =
     Inl (WcEnvManagerError (container_path @ '' is not mounted into the container''))"
| "container_to_host_loop cwd container_path ((host_mount_path, container_mount_attrs) # rest) =
     (let container_mount_path = bind container_mount_attrs
      in if prefix container_mount_path container_path
         then (case relpath cwd container_path container_mount_path of
                 Inl e \<Rightarrow> Inl e
               | Inr rel \<Rightarrow> Inr (path_join2 host_mount_path rel))
         else container_to_host_loop cwd container_path rest)"

definition convert_container_to_host_path :: "env \<Rightarrow> WcEnvManager \<Rightarrow> string \<Rightarrow> exn + string" where
  "convert_container_to_host_path E self container_path =
     container_to_host_loop (getcwd E) container_path (paths_to_mount_to_docker_container self)"

text \<open>
  A directory-boundary match of a mount path \<open>k\<close> against a path \<open>p\<close>: the same kind
  of root, and the components of \<open>k\<close> are the first components of \<open>p\<close>.
\<close>

definition is_under :: "string \<Rightarrow> string \<Rightarrow> bool" where
  "is_under k p \<longleftrightarrow>
     initial_slashes k = initial_slashes p \<and> prefix (components k) (components p)"

text \<open>The relative path that \<open>relpath\<close> builds from the components left over.\<close>

definition rel_of :: "string list \<Rightarrow> string" where
  "rel_of rest = (if rest = [] then ''.'' else join_sep rest)"

subsection \<open>Notions for the path properties\<close>

text \<open>
  A component that \<open>normpath\<close> keeps as it is; the components \<open>normpath\<close> computes;
  the path \<open>abspath\<close> normalises; a conversion to the container and back.
\<close>

definition clean :: "string \<Rightarrow> bool" where
  "clean c \<longleftrightarrow> c \<noteq> [] \<and> c \<noteq> ''.'' \<and> c \<noteq> ''..'' \<and> CHR ''/'' \<notin> set c"

definition norm_comps :: "string \<Rightarrow> string list" where
  "norm_comps p = foldl (normpath_step (initial_slashes p)) [] (split_sep p)"

definition absq :: "string \<Rightarrow> string \<Rightarrow> string" where
  "absq cwd p = (if isabs p then p else path_join2 cwd p)"

definition round_trip :: "env \<Rightarrow> WcEnvManager \<Rightarrow> string \<Rightarrow> exn + string" where
  "round_trip E self h =
     (case convert_host_to_container_path E self h of
        Inl e \<Rightarrow> Inl e
      | Inr c \<Rightarrow> convert_container_to_host_path E self c)"

text \<open>Mount tables for the examples.\<close>

definition mount :: "string \<Rightarrow> mount_attrs" where
  "mount b = \<lparr>bind = b, mode = ''rw''\<rparr>"

definition mounts_ab :: "(string \<times> mount_attrs) list" where
  "mounts_ab = [(''/a'', mount ''/c1''), (''/a/b'', mount ''/c2'')]"

definition with_mounts :: "(string \<times> mount_attrs) list \<Rightarrow> WcEnvManager \<Rightarrow> WcEnvManager" where
  "with_mounts m self = self\<lparr>paths_to_mount_to_docker_container := m\<rparr>"

subsection \<open>Notions for the install steps of a setup\<close>

text \<open>
  \<open>yields A s P\<close>: run from \<open>s\<close>, the operation \<open>A\<close> changes the manager only by
  issuing calls, and when it returns normally the install calls among them satisfy \<open>P\<close>.
  \<open>install_step_for\<close> describes the calls of one package-install step: the package list
  is written to a temporary file and \<open>pip install -r\<close> is run in the container.
\<close>

definition yields :: "'a action \<Rightarrow> WcEnvManager \<Rightarrow> (call list \<Rightarrow> bool) \<Rightarrow> bool" where
  "yields A s P \<longleftrightarrow>
     (\<exists>new. snd (A s) = s\<lparr>calls := calls s @ new\<rparr>
            \<and> (\<forall>x. fst (A s) = Inr x \<longrightarrow> P (install_trace new)))"

definition quiet :: "call list \<Rightarrow> bool" where
  "quiet t \<longleftrightarrow> t = []"

definition install_step_for :: "WcEnvManager \<Rightarrow> string \<Rightarrow> bool \<Rightarrow> bool \<Rightarrow> call list \<Rightarrow> bool" where
  "install_step_for s packages upgrade process_dependency_links t \<longleftrightarrow>
     (\<exists>f g n. t = [OsWrite f packages,
                    ExecRun n (pip_install_cmd (python_version_in_container s) g upgrade
                                 process_dependency_links)
                      None (Some []) (WcEnvUser_name root)])"

text \<open>
  For the examples: a daemon and host where every call succeeds with an empty answer, and
  a manager configured with one PyPI package list and no container yet.
\<close>

definition env0 :: env where
  "env0 = \<lparr>
     getcwd = ''/work'',
     environ_HOME = ''/home/u'',
     strftime_now = (\<lambda>h fmt. ''wc_env-2018-08-23-12-00-00''),
     strptime_ok = (\<lambda>n fmt. prefix ''wc_env-'' n),
     isdir = (\<lambda>h p. False),
     isfile = (\<lambda>h p. False),
     open_file = (\<lambda>h p. None),
     yaml_load = (\<lambda>h p. Inr []),
     os_call = (\<lambda>h c. Inr ()),
     mkstemp = (\<lambda>h c. Inr ''/tmp/req.txt''),
     exec_run = (\<lambda>h c. Inr ('''', 0)),
     subprocess_run = (\<lambda>h c. Inr 0),
     containers_run = (\<lambda>h c. Inr \<lparr>name = ''wc_env-2018-08-23-12-00-00'', short_id = ''0a1b''\<rparr>),
     containers_list = (\<lambda>a. Inr []),
     stats_read = (\<lambda>c. Inr 0),
     images_build = (\<lambda>h c. Inr \<lparr>image_id = ''sha256:1'', tags = []\<rparr>),
     image_tag = (\<lambda>h c. Inr ()),
     images_get = (\<lambda>h c. Inr \<lparr>image_id = ''sha256:1'', tags = []\<rparr>),
     images_remove = (\<lambda>h c. Inr ()),
     str_cmd = (\<lambda>c. ''cmd''),
     str_int = (\<lambda>i. ''n''),
     str_signal = (\<lambda>i. None)\<rparr>"

definition mgr0 :: WcEnvManager where
  "mgr0 = \<lparr>
     base_docker_image_repo = ''karrlab/wc_env_dependencies'',
     base_docker_image_tags = [''latest'', ''0.0.1''],
     docker_image_repo = ''karrlab/wc_env'',
     docker_image_tags = [''latest''],
     dockerfile_path = ''/work/Dockerfile'',
     docker_image_build_args = [],
     docker_image_context_path = ''/work'',
     docker_container_name_format = ''wc_env-%Y-%m-%d-%H-%M-%S'',
     paths_to_copy_to_docker_container = [],
     paths_to_mount_to_docker_container = [],
     ssh_key_container_path = ''/root/.ssh/id_rsa'',
     python_version_in_container = ''3.6'',
     python_packages_from_pypi = ''requests==2.0'',
     python_packages_from_github = '''',
     python_packages_from_host = '''',
     dockerhub_username = ''user'',
     dockerhub_password = ''secret'',
     verbose = False,
     docker_image = None,
     docker_container = None,
     calls = []\<rparr>"

text \<open>A running container, a daemon that answers the SSH probe and \<open>mktemp\<close>, a daemon
  that finds every path present, a listing of three containers, and a daemon whose image
  build fails.\<close>

definition box :: container_obj where
  "box = \<lparr>name = ''wc_env-2018-08-23-12-00-00'', short_id = ''0a1b''\<rparr>"

definition ssh_ok_output :: string where
  "ssh_ok_output = ''Hi user! You have successfully authenticated, but GitHub does not provide shell access.\<newline>''"

fun exec_run1 :: "call list \<Rightarrow> call \<Rightarrow> exn + (string \<times> int)" where
  "exec_run1 h (ExecRun n (Shell c) w e u) =
     (if c = ''ssh -T git@github.com'' then Inr (ssh_ok_output, 1)
      else if c = ''mktemp'' then Inr (''/tmp/tmp.X\<newline>'', 0)
      else Inr ([], 0))"
| "exec_run1 h c = Inr ([], 0)"

definition env1 :: env where
  "env1 = env0\<lparr>exec_run := exec_run1\<rparr>"

definition env_exists :: env where
  "env_exists = env0\<lparr>exec_run := (\<lambda>h c. Inr (''1\<newline>'', 0))\<rparr>"

definition mgr1 :: WcEnvManager where
  "mgr1 = mgr0\<lparr>docker_container := Some box\<rparr>"

definition box_a :: container_obj where
  "box_a = \<lparr>name = ''wc_env-2018-08-23-12-00-01'', short_id = ''aaaa''\<rparr>"

definition box_b :: container_obj where
  "box_b = \<lparr>name = ''wc_env-2018-08-23-12-00-00'', short_id = ''bbbb''\<rparr>"

definition box_other :: container_obj where
  "box_other = \<lparr>name = ''postgres'', short_id = ''cccc''\<rparr>"

definition read_time_ab :: "container_obj \<Rightarrow> int" where
  "read_time_ab c = (if c = box_a then 10 else if c = box_b then 20 else 99)"

definition env_ab :: env where
  "env_ab = env0\<lparr>containers_list := (\<lambda>a. Inr [box_a, box_other, box_b]),
                 stats_read := (\<lambda>c. Inr (read_time_ab c))\<rparr>"

definition env_build_fails :: "exn \<Rightarrow> env" where
  "env_build_fails e = env0\<lparr>isdir := (\<lambda>h p. True), images_build := (\<lambda>h c. Inl e)\<rparr>"

text \<open>A daemon that does not find the second image, and one where every command fails.\<close>

definition env_remove_fails :: env where
  "env_remove_fails = env0\<lparr>images_remove :=
     (\<lambda>h c. if c = ImagesRemove ''karrlab/wc_env:0.0.1'' True
            then Inl (ImageNotFound ''No such image: karrlab/wc_env:0.0.1'') else Inr ())\<rparr>"

definition env_command_fails :: env where
  "env_command_fails = env0\<lparr>exec_run := (\<lambda>h c. Inr (''boom\<newline>'', 2))\<rparr>"

section \<open>Properties\<close>

subsection \<open>Image removal ignores its force argument\<close>

lemma for_each_perform_all:
  "(\<forall>i<length ts. answer (calls s @ map mk (take i ts)) (mk (ts ! i)) = Inr ())
   \<Longrightarrow> for_each ts (\<lambda>tag. perform answer (mk tag)) s
         = (Inr (), s\<lparr>calls := calls s @ map mk ts\<rparr>)"
proof (induction ts arbitrary: s)
  case Nil
  show ?case by (simp add: ret_def)
next
  case (Cons t ts)
  let ?s1 = "s\<lparr>calls := calls s @ [mk t]\<rparr>"
  have h: "answer (calls s) (mk t) = Inr ()" using Cons.prems by force
  have "\<forall>i<length ts. answer (calls ?s1 @ map mk (take i ts)) (mk (ts ! i)) = Inr ()"
  proof (intro allI impI)
    fix i assume "i < length ts"
    then have "answer (calls s @ map mk (take (Suc i) (t # ts))) (mk ((t # ts) ! Suc i)) = Inr ()"
      using Cons.prems by (metis Suc_less_eq length_Cons)
    then show "answer (calls ?s1 @ map mk (take i ts)) (mk (ts ! i)) = Inr ()" by simp
  qed
  from Cons.IH[OF this] show ?case
    using h by (simp add: seq_def perform_def)
qed

lemma for_each_perform_stops:
  "n < length ts
   \<Longrightarrow> (\<forall>i<n. answer (calls s @ map mk (take i ts)) (mk (ts ! i)) = Inr ())
   \<Longrightarrow> answer (calls s @ map mk (take n ts)) (mk (ts ! n)) = Inl e
   \<Longrightarrow> for_each ts (\<lambda>tag. perform answer (mk tag)) s
         = (Inl e, s\<lparr>calls := calls s @ map mk (take (Suc n) ts)\<rparr>)"
proof (induction ts arbitrary: s n)
  case Nil
  then show ?case by simp
next
  case (Cons t ts)
  let ?s1 = "s\<lparr>calls := calls s @ [mk t]\<rparr>"
  show ?case
  proof (cases n)
    case 0
    then have "answer (calls s) (mk t) = Inl e" using Cons.prems(3) by simp
    then show ?thesis using 0 by (simp add: seq_def perform_def)
  next
    case (Suc m)
    have h: "answer (calls s) (mk t) = Inr ()" using Cons.prems(2) Suc by force
    have m: "m < length ts" using Cons.prems(1) Suc by simp
    have a: "\<forall>i<m. answer (calls ?s1 @ map mk (take i ts)) (mk (ts ! i)) = Inr ()"
    proof (intro allI impI)
      fix i assume "i < m"
      then have "answer (calls s @ map mk (take (Suc i) (t # ts))) (mk ((t # ts) ! Suc i)) = Inr ()"
        using Cons.prems(2) Suc by (metis Suc_less_eq)
      then show "answer (calls ?s1 @ map mk (take i ts)) (mk (ts ! i)) = Inr ()" by simp
    qed
    have b: "answer (calls ?s1 @ map mk (take m ts)) (mk (ts ! m)) = Inl e"
      using Cons.prems(3) Suc by simp
    from Cons.IH[OF m a b] show ?thesis
      using h Suc by (simp add: seq_def perform_def)
  qed
qed

text \<open>
  C10. Whatever the caller passes as \<open>force\<close>, \<open>remove_docker_image\<close> behaves as with
  \<open>force = True\<close>. It asks the daemon to remove \<open>repo:tag\<close> with \<open>force=True\<close> for
  the given tags in order: when every removal is answered, all tags are removed and the
  operation returns; when the removal of a tag raises, that exception is the outcome and
  the removals issued are those up to and including that tag.
\<close>

theorem remove_docker_image_always_forces:
  "remove_docker_image E repo ts force s = remove_docker_image E repo ts True s
   \<and> ((\<forall>i<length ts.
          images_remove E
            (calls s @ map (\<lambda>tag. ImagesRemove (repo @ '':'' @ tag) True) (take i ts))
            (ImagesRemove (repo @ '':'' @ ts ! i) True) = Inr ())
        \<longrightarrow> remove_docker_image E repo ts force s
              = (Inr (), s\<lparr>calls := calls s @ map (\<lambda>tag. ImagesRemove (repo @ '':'' @ tag) True) ts\<rparr>))
   \<and> (\<forall>n e. n < length ts
          \<and> (\<forall>i<n. images_remove E
                  (calls s @ map (\<lambda>tag. ImagesRemove (repo @ '':'' @ tag) True) (take i ts))
                  (ImagesRemove (repo @ '':'' @ ts ! i) True) = Inr ())
          \<and> images_remove E
                (calls s @ map (\<lambda>tag. ImagesRemove (repo @ '':'' @ tag) True) (take n ts))
                (ImagesRemove (repo @ '':'' @ ts ! n) True) = Inl e
        \<longrightarrow> remove_docker_image E repo ts force s
              = (Inl e, s\<lparr>calls := calls s
                     @ map (\<lambda>tag. ImagesRemove (repo @ '':'' @ tag) True) (take (Suc n) ts)\<rparr>))"
  unfolding remove_docker_image_def
  using for_each_perform_all[of ts "images_remove E" s "\<lambda>tag. ImagesRemove (repo @ '':'' @ tag) True"]
    for_each_perform_stops[of _ ts "images_remove E" s "\<lambda>tag. ImagesRemove (repo @ '':'' @ tag) True"]
  by auto

theorem remove_docker_image_always_forces_witness:
  "images_remove env0 (calls mgr0) (ImagesRemove ''karrlab/wc_env:latest'' True) = Inr ()
   \<and> images_remove env0 (calls mgr0 @ [ImagesRemove ''karrlab/wc_env:latest'' True])
        (ImagesRemove ''karrlab/wc_env:0.0.1'' True) = Inr ()
   \<and> remove_docker_image env0 ''karrlab/wc_env'' [''latest'', ''0.0.1''] False mgr0
       = (Inr (), mgr0\<lparr>calls := [ImagesRemove ''karrlab/wc_env:latest'' True,
                                  ImagesRemove ''karrlab/wc_env:0.0.1'' True]\<rparr>)
   \<and> images_remove env_remove_fails
        (calls mgr0 @ map (\<lambda>tag. ImagesRemove (''karrlab/wc_env'' @ '':'' @ tag) True)
                        (take 0 [''latest'', ''0.0.1'', ''0.0.2'']))
        (ImagesRemove (''karrlab/wc_env'' @ '':'' @ [''latest'', ''0.0.1'', ''0.0.2''] ! 0) True) = Inr ()
   \<and> images_remove env_remove_fails
        (calls mgr0 @ map (\<lambda>tag. ImagesRemove (''karrlab/wc_env'' @ '':'' @ tag) True)
                        (take 1 [''latest'', ''0.0.1'', ''0.0.2'']))
        (ImagesRemove (''karrlab/wc_env'' @ '':'' @ [''latest'', ''0.0.1'', ''0.0.2''] ! 1) True)
       = Inl (ImageNotFound ''No such image: karrlab/wc_env:0.0.1'')
   \<and> remove_docker_image env_remove_fails ''karrlab/wc_env'' [''latest'', ''0.0.1'', ''0.0.2''] False mgr0
       = (Inl (ImageNotFound ''No such image: karrlab/wc_env:0.0.1''),
          mgr0\<lparr>calls := [ImagesRemove ''karrlab/wc_env:latest'' True,
                           ImagesRemove ''karrlab/wc_env:0.0.1'' True]\<rparr>)"
proof -
  let ?mk = "\<lambda>tag. ImagesRemove (''karrlab/wc_env'' @ '':'' @ tag) True"
  have a: "\<forall>i<length [''latest'', ''0.0.1''].
      images_remove env0 (calls mgr0 @ map ?mk (take i [''latest'', ''0.0.1'']))
        (ImagesRemove (''karrlab/wc_env'' @ '':'' @ [''latest'', ''0.0.1''] ! i) True) = Inr ()"
    by (simp add: env0_def)
  have c0: "calls mgr0 = []" by (simp add: mgr0_def)
  from remove_docker_image_always_forces[of env0 "''karrlab/wc_env''" "[''latest'', ''0.0.1'']" False mgr0] a
  have r1: "remove_docker_image env0 ''karrlab/wc_env'' [''latest'', ''0.0.1''] False mgr0
       = (Inr (), mgr0\<lparr>calls := calls mgr0 @ map ?mk [''latest'', ''0.0.1'']\<rparr>)"
    by blast
  have b0: "images_remove env_remove_fails
        (calls mgr0 @ map ?mk (take 0 [''latest'', ''0.0.1'', ''0.0.2'']))
        (ImagesRemove (''karrlab/wc_env'' @ '':'' @ [''latest'', ''0.0.1'', ''0.0.2''] ! 0) True) = Inr ()"
    by (simp add: env_remove_fails_def)
  have b1: "images_remove env_remove_fails
        (calls mgr0 @ map ?mk (take 1 [''latest'', ''0.0.1'', ''0.0.2'']))
        (ImagesRemove (''karrlab/wc_env'' @ '':'' @ [''latest'', ''0.0.1'', ''0.0.2''] ! 1) True)
       = Inl (ImageNotFound ''No such image: karrlab/wc_env:0.0.1'')"
    by (simp add: env_remove_fails_def)
  have pre: "\<forall>i<1. images_remove env_remove_fails
        (calls mgr0 @ map ?mk (take i [''latest'', ''0.0.1'', ''0.0.2'']))
        (ImagesRemove (''karrlab/wc_env'' @ '':'' @ [''latest'', ''0.0.1'', ''0.0.2''] ! i) True) = Inr ()"
    using b0 by simp
  have len: "(1::nat) < length [''latest'', ''0.0.1'', ''0.0.2'']" by simp
  from remove_docker_image_always_forces[of env_remove_fails "''karrlab/wc_env''"
      "[''latest'', ''0.0.1'', ''0.0.2'']" False mgr0] len pre b1
  have r2: "remove_docker_image env_remove_fails ''karrlab/wc_env'' [''latest'', ''0.0.1'', ''0.0.2''] False mgr0
       = (Inl (ImageNotFound ''No such image: karrlab/wc_env:0.0.1''),
          mgr0\<lparr>calls := calls mgr0 @ map ?mk (take (Suc 1) [''latest'', ''0.0.1'', ''0.0.2''])\<rparr>)"
    by blast
  show ?thesis
    using a b0 b1 r1 r2 c0 by (simp add: env0_def)
qed

subsection \<open>Splitting and normalising paths\<close>

lemma split_sep_nonempty: "split_sep s \<noteq> []"
  by (induction s) (auto split: list.splits)

lemma split_sep_no_sep: "x \<in> set (split_sep s) \<Longrightarrow> CHR ''/'' \<notin> set x"
  by (induction s arbitrary: x) (auto split: list.splits if_splits)

lemma split_sep_append: "split_sep (a @ CHR ''/'' # b) = split_sep a @ split_sep b"
  by (induction a) (auto split: list.splits simp: split_sep_nonempty)

lemma split_sep_nosep: "CHR ''/'' \<notin> set s \<Longrightarrow> split_sep s = [s]"
  by (induction s) auto

lemma split_join: "xs \<noteq> [] \<Longrightarrow> \<forall>x\<in>set xs. CHR ''/'' \<notin> set x \<Longrightarrow> split_sep (join_sep xs) = xs"
proof (induction xs rule: join_sep.induct)
  case 1 then show ?case by simp
next
  case (2 x) then show ?case by (simp add: split_sep_nosep)
next
  case (3 x y ys)
  then show ?case by (simp add: split_sep_append split_sep_nosep)
qed

lemma split_replicate: "split_sep (replicate n (CHR ''/'') @ s) = replicate n [] @ split_sep s"
  by (induction n) auto

lemma split_replicate_only: "split_sep (replicate n (CHR ''/'')) = replicate n [] @ [[]]"
  using split_replicate[of n "[]"] by simp

lemma components_normal:
  assumes "\<forall>c\<in>set cs. clean c"
  shows "components (replicate n (CHR ''/'') @ join_sep cs) = cs"
proof (cases "cs = []")
  case True
  then show ?thesis by (simp add: components_def split_replicate_only)
next
  case False
  with assms have "split_sep (join_sep cs) = cs"
    by (intro split_join) (auto simp: clean_def)
  moreover have "filter (\<lambda>x. x \<noteq> []) cs = cs"
    using assms by (auto simp: clean_def intro: filter_True)
  ultimately show ?thesis by (simp add: components_def split_replicate)
qed

lemma step_clean: "0 < i \<Longrightarrow> \<forall>c\<in>set acc. clean c \<Longrightarrow> clean c \<Longrightarrow> normpath_step i acc c = acc @ [c]"
  by (auto simp: normpath_step_def clean_def)

lemma step_skip: "normpath_step i acc [] = acc" "normpath_step i acc ''.'' = acc"
  by (simp_all add: normpath_step_def)

lemma step_keeps_clean:
  assumes "0 < i" "\<forall>c\<in>set acc. clean c" "CHR ''/'' \<notin> set c"
  shows "\<forall>d\<in>set (normpath_step i acc c). clean d"
proof -
  have nl: "acc \<noteq> [] \<Longrightarrow> last acc \<noteq> ''..''"
    using assms(2) last_in_set[of acc] by (auto simp: clean_def)
  have bl: "\<forall>d\<in>set (butlast acc). clean d"
    using assms(2) by (auto dest: in_set_butlastD)
  show ?thesis
    using assms nl bl unfolding normpath_step_def
    by (auto simp: clean_def)
qed

lemma fold_keeps_clean:
  "0 < i \<Longrightarrow> \<forall>c\<in>set acc. clean c \<Longrightarrow> \<forall>x\<in>set xs. CHR ''/'' \<notin> set x
   \<Longrightarrow> \<forall>d\<in>set (foldl (normpath_step i) acc xs). clean d"
proof (induction xs arbitrary: acc)
  case Nil then show ?case by simp
next
  case (Cons x xs)
  have "\<forall>d\<in>set (normpath_step i acc x). clean d"
    using Cons.prems by (intro step_keeps_clean) auto
  then show ?case using Cons by simp
qed

lemma fold_clean_append:
  "0 < i \<Longrightarrow> \<forall>c\<in>set acc. clean c \<Longrightarrow> \<forall>c\<in>set cs. clean c
   \<Longrightarrow> foldl (normpath_step i) acc cs = acc @ cs"
  by (induction cs arbitrary: acc) (auto simp: step_clean)

lemma fold_skip_empties: "foldl (normpath_step i) acc (replicate n [] @ xs) = foldl (normpath_step i) acc xs"
  by (induction n) (auto simp: step_skip)

lemma initial_slashes_pos: "isabs p \<Longrightarrow> initial_slashes p = 1 \<or> initial_slashes p = 2"
  by (auto simp: initial_slashes_def isabs_def)

lemma norm_comps_clean: "isabs p \<Longrightarrow> \<forall>c\<in>set (norm_comps p). clean c"
  unfolding norm_comps_def
  using initial_slashes_pos[of p]
  by (intro fold_keeps_clean) (auto dest: split_sep_no_sep)

lemma normpath_abs:
  "isabs p \<Longrightarrow> normpath p = replicate (initial_slashes p) (CHR ''/'') @ join_sep (norm_comps p)"
proof -
  assume a: "isabs p"
  then have "p \<noteq> []" "initial_slashes p \<noteq> 0"
    using initial_slashes_pos[of p] by (auto simp: isabs_def)
  moreover have "replicate (initial_slashes p) (CHR ''/'') @ join_sep (norm_comps p) \<noteq> []"
    using \<open>initial_slashes p \<noteq> 0\<close> by simp
  ultimately show ?thesis
    by (simp add: normpath_def norm_comps_def Let_def)
qed

lemma join_sep_hd: "x \<noteq> [] \<Longrightarrow> hd (join_sep (x # ys)) = hd x"
  by (cases ys) auto

lemma join_sep_clean_hd:
  assumes "\<forall>c\<in>set cs. clean c"
  shows "\<not> prefix ''/'' (join_sep cs)"
proof (cases cs)
  case Nil then show ?thesis by simp
next
  case (Cons x ys)
  then have x: "x \<noteq> []" "hd x \<noteq> CHR ''/''"
    using assms by (auto simp: clean_def intro: hd_in_set dest: hd_in_set)
  then have "hd (join_sep cs) \<noteq> CHR ''/''" using Cons by (simp add: join_sep_hd)
  then show ?thesis by (cases "join_sep cs") auto
qed

lemma initial_slashes_normal:
  assumes "i = 1 \<or> i = 2" "\<forall>c\<in>set cs. clean c"
  shows "initial_slashes (replicate i (CHR ''/'') @ join_sep cs) = i"
proof -
  have "\<not> prefix ''/'' (join_sep cs)" using assms(2) by (rule join_sep_clean_hd)
  then have h: "join_sep cs = [] \<or> hd (join_sep cs) \<noteq> CHR ''/''"
    by (cases "join_sep cs") (auto)
  from assms(1) show ?thesis
  proof
    assume "i = 1"
    then show ?thesis using h by (cases "join_sep cs") (auto simp: initial_slashes_def)
  next
    assume "i = 2"
    then show ?thesis using h by (cases "join_sep cs") (auto simp: initial_slashes_def numeral_2_eq_2)
  qed
qed

lemma isabs_normal: "0 < i \<Longrightarrow> isabs (replicate i (CHR ''/'') @ s)"
  by (cases i) (auto simp: isabs_def)

lemma norm_comps_normal:
  assumes "i = 1 \<or> i = 2" "\<forall>c\<in>set cs. clean c"
  shows "norm_comps (replicate i (CHR ''/'') @ join_sep cs) = cs"
proof -
  let ?P = "replicate i (CHR ''/'') @ join_sep cs"
  have i: "initial_slashes ?P = i" using assms by (rule initial_slashes_normal)
  have pos: "0 < i" using assms(1) by auto
  show ?thesis
  proof (cases "cs = []")
    case True
    have "foldl (normpath_step i) [] (replicate i [] @ [[]]) = []"
      by (simp only: fold_skip_empties) (simp add: step_skip)
    then show ?thesis using True i by (simp add: norm_comps_def split_replicate_only)
  next
    case False
    with assms have sp: "split_sep (join_sep cs) = cs"
      by (intro split_join) (auto simp: clean_def)
    have "foldl (normpath_step i) [] (replicate i [] @ cs) = [] @ cs"
      unfolding fold_skip_empties using pos assms(2) by (intro fold_clean_append) auto
    then show ?thesis using i sp by (simp add: norm_comps_def split_replicate)
  qed
qed

lemma normpath_facts:
  assumes "isabs p"
  shows "isabs (normpath p)"
    and "initial_slashes (normpath p) = initial_slashes p"
    and "components (normpath p) = norm_comps p"
    and "norm_comps (normpath p) = norm_comps p"
    and "normpath (normpath p) = normpath p"
    and "normpath p \<noteq> []"
proof -
  let ?i = "initial_slashes p"
  have i: "?i = 1 \<or> ?i = 2" using assms by (rule initial_slashes_pos)
  have c: "\<forall>c\<in>set (norm_comps p). clean c" using assms by (rule norm_comps_clean)
  have n: "normpath p = replicate ?i (CHR ''/'') @ join_sep (norm_comps p)"
    using assms by (rule normpath_abs)
  show a: "isabs (normpath p)" unfolding n using i by (intro isabs_normal) auto
  show s: "initial_slashes (normpath p) = ?i" unfolding n using i c by (rule initial_slashes_normal)
  show "components (normpath p) = norm_comps p" unfolding n using c by (rule components_normal)
  show nc: "norm_comps (normpath p) = norm_comps p" unfolding n using i c by (rule norm_comps_normal)
  show "normpath (normpath p) = normpath p"
    using normpath_abs[OF a] s nc n by simp
  show "normpath p \<noteq> []" using a by (auto simp: isabs_def)
qed

subsection \<open>Joining and relative paths\<close>

lemma suffix_sep: "suffix ''/'' p \<longleftrightarrow> p \<noteq> [] \<and> last p = CHR ''/''"
proof
  assume "suffix ''/'' p"
  then obtain q where "p = q @ ''/''" by (auto simp: suffix_def)
  then show "p \<noteq> [] \<and> last p = CHR ''/''" by simp
next
  assume "p \<noteq> [] \<and> last p = CHR ''/''"
  then have "p = butlast p @ ''/''" using append_butlast_last_id[of p] by simp
  then show "suffix ''/'' p" unfolding suffix_def by blast
qed

lemma prefix_sep: "prefix ''/'' p \<longleftrightarrow> p \<noteq> [] \<and> hd p = CHR ''/''"
  by (cases p) auto

lemma clean_last: "clean c \<Longrightarrow> last c \<noteq> CHR ''/''"
  unfolding clean_def by (metis last_in_set)

lemma clean_hd: "clean c \<Longrightarrow> \<not> prefix ''/'' c"
  by (cases c) (auto simp: clean_def)

lemma foldl_join_clean:
  "acc \<noteq> [] \<Longrightarrow> last acc \<noteq> CHR ''/'' \<Longrightarrow> \<forall>c\<in>set p. clean c
   \<Longrightarrow> foldl path_join2 acc p = (if p = [] then acc else acc @ CHR ''/'' # join_sep p)"
proof (induction p arbitrary: acc)
  case Nil then show ?case by simp
next
  case (Cons x p)
  have x: "clean x" using Cons.prems by simp
  have j: "path_join2 acc x = acc @ CHR ''/'' # x"
    using Cons.prems(1,2) clean_hd[OF x] by (simp add: path_join2_def suffix_sep)
  have "foldl path_join2 (acc @ CHR ''/'' # x) p
          = (if p = [] then acc @ CHR ''/'' # x else (acc @ CHR ''/'' # x) @ CHR ''/'' # join_sep p)"
    using Cons.prems x clean_last[OF x] by (intro Cons.IH) (auto simp: clean_def)
  then show ?case using j by (cases p) auto
qed

lemma path_join_clean: "\<forall>c\<in>set (a # p). clean c \<Longrightarrow> path_join a p = join_sep (a # p)"
  unfolding path_join_def
  using foldl_join_clean[of a p] clean_last[of a]
  by (cases p) (auto simp: clean_def)

lemma lcp_prefix: "prefix xs ys \<Longrightarrow> longest_common_prefix xs ys = xs"
  by (induction xs ys rule: longest_common_prefix.induct) auto

text \<open>relpath between two normalised absolute paths, one under the other\<close>

lemma abspath_abs: "isabs (cwd) \<Longrightarrow> isabs (absq cwd p)"
  by (auto simp: absq_def path_join2_def isabs_def prefix_def)

lemma abspath_absq: "abspath cwd p = normpath (absq cwd p)"
  by (simp add: abspath_def absq_def)

lemma abspath_idem: "isabs cwd \<Longrightarrow> abspath cwd (abspath cwd p) = abspath cwd p"
  using normpath_facts(1,5)[OF abspath_abs[of cwd p]]
  by (simp add: abspath_def absq_def)

lemma abspath_clean: "isabs cwd \<Longrightarrow> \<forall>c\<in>set (components (abspath cwd p)). clean c"
  using normpath_facts(3)[OF abspath_abs[of cwd p]] norm_comps_clean[OF abspath_abs[of cwd p]]
  by (simp add: abspath_absq)

lemma abspath_nonempty: "isabs cwd \<Longrightarrow> abspath cwd p \<noteq> []"
  using normpath_facts(6)[OF abspath_abs[of cwd p]] by (simp add: abspath_absq)

lemma relpath_under:
  assumes cwd: "isabs cwd"
    and pre: "prefix (components (abspath cwd k)) (components (abspath cwd h))"
  shows "relpath cwd (abspath cwd h) (abspath cwd k)
           = Inr (rel_of (drop (length (components (abspath cwd k))) (components (abspath cwd h))))"
proof -
  let ?ks = "components (abspath cwd k)" and ?hs = "components (abspath cwd h)"
  let ?rest = "drop (length ?ks) ?hs"
  have cl: "\<forall>c\<in>set ?rest. clean c"
    using abspath_clean[OF cwd, of h] by (auto dest: in_set_dropD)
  have "relpath cwd (abspath cwd h) (abspath cwd k)
          = (case ?rest of [] \<Rightarrow> Inr ''.'' | a # p \<Rightarrow> Inr (path_join a p))"
    using abspath_nonempty[OF cwd, of h] pre
    by (simp add: relpath_def abspath_idem[OF cwd] lcp_prefix Let_def)
  also have "\<dots> = Inr (rel_of ?rest)"
  proof (cases ?rest)
    case Nil then show ?thesis by (simp add: rel_of_def)
  next
    case (Cons a p)
    then have "path_join a p = join_sep (a # p)" using cl by (intro path_join_clean) simp
    then show ?thesis using Cons by (simp add: rel_of_def)
  qed
  finally show ?thesis .
qed

lemma host_to_container_loop_find:
  "host_to_container_loop cwd hp m =
     (case find (\<lambda>(k, a). prefix (abspath cwd k) hp) m of
        None \<Rightarrow> Inl (WcEnvManagerError (hp @ '' is not mounted into the container''))
      | Some (k, a) \<Rightarrow> (case relpath cwd hp (abspath cwd k) of
                          Inl e \<Rightarrow> Inl e
                        | Inr rel \<Rightarrow> Inr (path_join2 (bind a) rel)))"
  by (induction m) (auto simp: Let_def)

subsection \<open>There and back\<close>

lemma rel_of_props:
  assumes "\<forall>c\<in>set rest. clean c"
  shows "rel_of rest \<noteq> []" and "\<not> prefix ''/'' (rel_of rest)"
    and "foldl (normpath_step i) acc (split_sep (rel_of rest))
           = foldl (normpath_step i) acc rest"
proof -
  show "rel_of rest \<noteq> []"
  proof (cases rest)
    case Nil then show ?thesis by (simp add: rel_of_def)
  next
    case (Cons x xs)
    then have "x \<noteq> []" using assms by (simp add: clean_def)
    then show ?thesis using Cons by (cases xs) (auto simp: rel_of_def)
  qed
  show "\<not> prefix ''/'' (rel_of rest)"
    using join_sep_clean_hd[OF assms] by (simp add: rel_of_def)
  show "foldl (normpath_step i) acc (split_sep (rel_of rest)) = foldl (normpath_step i) acc rest"
  proof (cases "rest = []")
    case True then show ?thesis by (simp add: rel_of_def step_skip)
  next
    case False
    then have "split_sep (join_sep rest) = rest"
      using assms by (intro split_join) (auto simp: clean_def)
    then show ?thesis using False by (simp add: rel_of_def)
  qed
qed

lemma prefix_join2: "\<not> prefix ''/'' r \<Longrightarrow> prefix b (path_join2 b r)"
  by (simp add: path_join2_def)

lemma absq_join2:
  assumes "isabs cwd" "\<not> prefix ''/'' r" "r \<noteq> []"
  shows "absq cwd (path_join2 b r) = path_join2 (absq cwd b) r"
proof (cases "isabs b")
  case True
  then have "isabs (path_join2 b r)"
    using assms(2) by (auto simp: isabs_def path_join2_def prefix_def)
  then show ?thesis using True by (simp add: absq_def)
next
  case False
  have cw: "cwd \<noteq> []" using assms(1) by (auto simp: isabs_def)
  show ?thesis
  proof (cases "b = []")
    case True
    then show ?thesis using assms(2) cw False
      by (auto simp: absq_def path_join2_def isabs_def suffix_sep)
  next
    case nb: False
    have "\<not> isabs (path_join2 b r)"
      using False nb assms(2) by (cases b) (auto simp: isabs_def path_join2_def)
    then show ?thesis using False nb assms(2) cw
      by (auto simp: absq_def path_join2_def isabs_def suffix_sep)
  qed
qed

lemma initial_slashes_join2:
  assumes "isabs x" "\<not> prefix ''/'' r" "r \<noteq> []"
  shows "initial_slashes (path_join2 x r) = initial_slashes x"
proof -
  obtain x1 where x: "x = CHR ''/'' # x1" using assms(1) by (cases x) (auto simp: isabs_def)
  obtain c r1 where r: "r = c # r1" "c \<noteq> CHR ''/''" using assms(2,3) by (cases r) auto
  show ?thesis
  proof (cases x1)
    case Nil
    then show ?thesis using x r by (simp add: path_join2_def initial_slashes_def suffix_sep)
  next
    case (Cons d x2)
    note c1 = this
    show ?thesis
    proof (cases x2)
      case Nil
      then show ?thesis using x r c1 by (simp add: path_join2_def initial_slashes_def suffix_sep)
    next
      case (Cons e x3)
      then show ?thesis using x r c1 by (simp add: path_join2_def initial_slashes_def suffix_sep)
    qed
  qed
qed

lemma norm_comps_join2:
  assumes ax: "isabs x" and cl: "\<forall>c\<in>set rest. clean c"
  shows "norm_comps (path_join2 x (rel_of rest)) = norm_comps x @ rest"
proof -
  let ?r = "rel_of rest" and ?i = "initial_slashes x"
  note rp = rel_of_props[OF cl]
  have i: "initial_slashes (path_join2 x ?r) = ?i"
    using ax rp(2) rp(1) by (rule initial_slashes_join2)
  have pos: "0 < ?i" using initial_slashes_pos[OF ax] by auto
  have xn: "x \<noteq> []" using ax by (auto simp: isabs_def)
  have "foldl (normpath_step ?i) [] (split_sep (path_join2 x ?r))
          = foldl (normpath_step ?i) (foldl (normpath_step ?i) [] (split_sep x)) (split_sep ?r)"
  proof (cases "suffix ''/'' x")
    case True
    then obtain x' where x': "x = x' @ ''/''" by (auto simp: suffix_def)
    have "split_sep x = split_sep x' @ [[]]" unfolding x' using split_sep_append[of x' "[]"] by simp
    moreover have "split_sep (path_join2 x ?r) = split_sep x' @ split_sep ?r"
      using True rp(2) split_sep_append[of x' ?r] by (simp add: path_join2_def x')
    ultimately show ?thesis by (simp add: step_skip)
  next
    case False
    then have "split_sep (path_join2 x ?r) = split_sep x @ split_sep ?r"
      using xn rp(2) split_sep_append[of x ?r] by (simp add: path_join2_def)
    then show ?thesis by simp
  qed
  also have "\<dots> = foldl (normpath_step ?i) (norm_comps x) rest"
    by (simp add: rp(3) norm_comps_def)
  also have "\<dots> = norm_comps x @ rest"
    using pos norm_comps_clean[OF ax] cl by (intro fold_clean_append) auto
  finally show ?thesis by (simp add: norm_comps_def i)
qed

lemma abspath_join2:
  assumes cwd: "isabs cwd" and cl: "\<forall>c\<in>set rest. clean c"
  shows "components (abspath cwd (path_join2 b (rel_of rest))) = components (abspath cwd b) @ rest"
    and "initial_slashes (abspath cwd (path_join2 b (rel_of rest))) = initial_slashes (abspath cwd b)"
proof -
  note rp = rel_of_props[OF cl]
  let ?x = "absq cwd b"
  have ax: "isabs ?x" using cwd by (rule abspath_abs)
  have q: "absq cwd (path_join2 b (rel_of rest)) = path_join2 ?x (rel_of rest)"
    using cwd rp(2) rp(1) by (rule absq_join2)
  have ay: "isabs (path_join2 ?x (rel_of rest))"
    using abspath_abs[OF cwd, of "path_join2 b (rel_of rest)"] q by simp
  show "components (abspath cwd (path_join2 b (rel_of rest))) = components (abspath cwd b) @ rest"
    by (simp add: abspath_absq q normpath_facts(3)[OF ay] normpath_facts(3)[OF ax]
        norm_comps_join2[OF ax cl])
  show "initial_slashes (abspath cwd (path_join2 b (rel_of rest))) = initial_slashes (abspath cwd b)"
    by (simp add: abspath_absq q normpath_facts(2)[OF ay] normpath_facts(2)[OF ax]
        initial_slashes_join2[OF ax rp(2) rp(1)])
qed

lemma abspath_form:
  assumes "isabs cwd"
  shows "abspath cwd p = replicate (initial_slashes (abspath cwd p)) (CHR ''/'')
                           @ join_sep (components (abspath cwd p))"
  using normpath_abs[OF abspath_abs[OF assms, of p]] normpath_facts(2,3)[OF abspath_abs[OF assms, of p]]
  by (simp add: abspath_absq)

lemma relpath_rest:
  assumes cwd: "isabs cwd" and ne: "path \<noteq> []"
    and eq: "components (abspath cwd path) = components (abspath cwd start) @ rest"
  shows "relpath cwd path start = Inr (rel_of rest)"
proof -
  have cl: "\<forall>c\<in>set rest. clean c"
    using abspath_clean[OF cwd, of path] eq by auto
  have "longest_common_prefix (components (abspath cwd start)) (components (abspath cwd start) @ rest)
          = components (abspath cwd start)"
    by (intro lcp_prefix) simp
  then have "relpath cwd path start = (case rest of [] \<Rightarrow> Inr ''.'' | a # p \<Rightarrow> Inr (path_join a p))"
    using ne by (simp add: relpath_def eq Let_def)
  also have "\<dots> = Inr (rel_of rest)"
  proof (cases rest)
    case Nil then show ?thesis by (simp add: rel_of_def)
  next
    case (Cons a p)
    then have "path_join a p = join_sep (a # p)" using cl by (intro path_join_clean) simp
    then show ?thesis using Cons by (simp add: rel_of_def)
  qed
  finally show ?thesis .
qed

lemma container_to_host_loop_find:
  "container_to_host_loop cwd cp m =
     (case find (\<lambda>(k, a). prefix (bind a) cp) m of
        None \<Rightarrow> Inl (WcEnvManagerError (cp @ '' is not mounted into the container''))
      | Some (k, a) \<Rightarrow> (case relpath cwd cp (bind a) of
                          Inl e \<Rightarrow> Inl e
                        | Inr rel \<Rightarrow> Inr (path_join2 k rel)))"
  by (induction m) (auto simp: Let_def)

lemma join_sep_append:
  "xs \<noteq> [] \<Longrightarrow> ys \<noteq> [] \<Longrightarrow> join_sep (xs @ ys) = join_sep xs @ CHR ''/'' # join_sep ys"
proof (induction xs rule: join_sep.induct)
  case 1 then show ?case by simp
next
  case (2 x) then show ?case by (cases ys) auto
next
  case (3 x y zs) then show ?case by simp
qed

lemma join_sep_last:
  "cs \<noteq> [] \<Longrightarrow> \<forall>c\<in>set cs. clean c \<Longrightarrow> join_sep cs \<noteq> [] \<and> last (join_sep cs) \<noteq> CHR ''/''"
proof (induction cs rule: join_sep.induct)
  case 1 then show ?case by simp
next
  case (2 x) then show ?case using clean_last[of x] by (simp add: clean_def)
next
  case (3 x y zs) then show ?case by simp
qed

lemma join2_exact:
  assumes i: "i = 1 \<or> i = 2" and ks: "\<forall>c\<in>set ks. clean c" and rest: "\<forall>c\<in>set rest. clean c"
    and ne: "rest \<noteq> []"
  shows "path_join2 (replicate i (CHR ''/'') @ join_sep ks) (rel_of rest)
           = replicate i (CHR ''/'') @ join_sep (ks @ rest)"
proof -
  note rp = rel_of_props[OF rest]
  show ?thesis
  proof (cases "ks = []")
    case True
    have "suffix ''/'' (replicate i (CHR ''/''))"
      using i by (auto simp: suffix_sep)
    then show ?thesis using True rp(2) ne by (simp add: path_join2_def rel_of_def)
  next
    case False
    have "\<not> suffix ''/'' (replicate i (CHR ''/'') @ join_sep ks)"
      using join_sep_last[OF False ks] by (simp add: suffix_sep)
    then show ?thesis
      using False rp(2) ne i join_sep_append[OF False ne] by (auto simp: path_join2_def rel_of_def)
  qed
qed

lemma host_to_container_under:
  assumes "isabs (getcwd E)"
    and "find (\<lambda>(k, a). prefix (abspath (getcwd E) k) (abspath (getcwd E) h))
           (paths_to_mount_to_docker_container self) = Some (k, a)"
    and "prefix (components (abspath (getcwd E) k)) (components (abspath (getcwd E) h))"
  shows "convert_host_to_container_path E self h
           = Inr (path_join2 (bind a)
                   (rel_of (drop (length (components (abspath (getcwd E) k)))
                                 (components (abspath (getcwd E) h)))))"
  using assms
  by (simp add: convert_host_to_container_path_def host_to_container_loop_find relpath_under)

lemma host_to_container_unmounted:
  assumes "find (\<lambda>(k, a). prefix (abspath (getcwd E) k) (abspath (getcwd E) h))
             (paths_to_mount_to_docker_container self) = None"
  shows "convert_host_to_container_path E self h
           = Inl (WcEnvManagerError (abspath (getcwd E) h @ '' is not mounted into the container''))"
  using assms
  by (simp add: convert_host_to_container_path_def host_to_container_loop_find)

subsection \<open>Host paths to container paths\<close>

text \<open>
  C1, as the code has it. The host path is resolved with \<open>abspath\<close>; the mount table is
  searched in its own order and the first entry whose resolved host path is a prefix (as a
  string) of the resolved host path decides; no longer match later in the table is looked
  for. With the table \<open>{/a -> /c1, /a/b -> /c2}\<close> the path \<open>/a/b/file\<close> is converted to
  \<open>/c1/b/file\<close>.
\<close>

theorem convert_host_to_container_path_longest_prefix_counterexample:
  "convert_host_to_container_path env0 (with_mounts mounts_ab mgr0) ''/a/b/file'' = Inr ''/c1/b/file''
   \<and> convert_host_to_container_path env0 (with_mounts mounts_ab mgr0) ''/a/b/file'' \<noteq> Inr ''/c2/file''"
  by code_simp

text \<open>
  The prefix test is a test on strings: with the mount \<open>/mnt/foo -> /c\<close>, the sibling
  \<open>/mnt/foobar\<close> passes it and is converted to \<open>/c/../foobar\<close>, where the docstring
  promises \<open>WcEnvManagerError\<close> for a path that is not mounted. The amended claim
  below is about the entries that match at a directory boundary.
\<close>

lemma host_to_container_sibling_prefix:
  "convert_host_to_container_path env0 (with_mounts [(''/mnt/foo'', mount ''/c'')] mgr0) ''/mnt/foobar''
     = Inr ''/c/../foobar''"
  by code_simp

text \<open>
  C1, amended. When no entry's resolved host path is a prefix of the resolved host path,
  the conversion raises \<open>WcEnvManagerError\<close>. When the first entry that is a prefix is a
  directory-boundary match (its components are the first components of the resolved host
  path), the result is that entry's container path joined with the remaining components
  (\<open>.\<close> when none remain).
\<close>

theorem convert_host_to_container_path_first_match:
  assumes "isabs (getcwd E)"
  shows "(find (\<lambda>(k, a). prefix (abspath (getcwd E) k) (abspath (getcwd E) h))
             (paths_to_mount_to_docker_container self) = None
          \<longrightarrow> convert_host_to_container_path E self h
                = Inl (WcEnvManagerError (abspath (getcwd E) h @ '' is not mounted into the container'')))
       \<and> (\<forall>k a. find (\<lambda>(k, a). prefix (abspath (getcwd E) k) (abspath (getcwd E) h))
                   (paths_to_mount_to_docker_container self) = Some (k, a)
                 \<and> prefix (components (abspath (getcwd E) k)) (components (abspath (getcwd E) h))
          \<longrightarrow> convert_host_to_container_path E self h
                = Inr (path_join2 (bind a)
                        (rel_of (drop (length (components (abspath (getcwd E) k)))
                                      (components (abspath (getcwd E) h))))))"
  using host_to_container_under[OF assms, of h self] host_to_container_unmounted[of E h self]
  by blast

theorem convert_host_to_container_path_first_match_witness:
  "isabs (getcwd env0)
   \<and> find (\<lambda>(k, a). prefix (abspath (getcwd env0) k) (abspath (getcwd env0) ''/a/b/file''))
        (paths_to_mount_to_docker_container (with_mounts mounts_ab mgr0)) = Some (''/a'', mount ''/c1'')
   \<and> prefix (components (abspath (getcwd env0) ''/a'')) (components (abspath (getcwd env0) ''/a/b/file''))
   \<and> convert_host_to_container_path env0 (with_mounts mounts_ab mgr0) ''/a/b/file'' = Inr ''/c1/b/file''
   \<and> find (\<lambda>(k, a). prefix (abspath (getcwd env0) k) (abspath (getcwd env0) ''/b/file''))
        (paths_to_mount_to_docker_container (with_mounts mounts_ab mgr0)) = None
   \<and> convert_host_to_container_path env0 (with_mounts mounts_ab mgr0) ''/b/file''
       = Inl (WcEnvManagerError ''/b/file is not mounted into the container'')"
proof -
  have cwd: "isabs (getcwd env0)" by code_simp
  have f: "find (\<lambda>(k, a). prefix (abspath (getcwd env0) k) (abspath (getcwd env0) ''/a/b/file''))
        (paths_to_mount_to_docker_container (with_mounts mounts_ab mgr0)) = Some (''/a'', mount ''/c1'')"
    by code_simp
  have p: "prefix (components (abspath (getcwd env0) ''/a'')) (components (abspath (getcwd env0) ''/a/b/file''))"
    by code_simp
  have n: "find (\<lambda>(k, a). prefix (abspath (getcwd env0) k) (abspath (getcwd env0) ''/b/file''))
        (paths_to_mount_to_docker_container (with_mounts mounts_ab mgr0)) = None"
    by code_simp
  have v: "path_join2 (bind (mount ''/c1''))
             (rel_of (drop (length (components (abspath (getcwd env0) ''/a'')))
                           (components (abspath (getcwd env0) ''/a/b/file'')))) = ''/c1/b/file''"
    by code_simp
  have w: "abspath (getcwd env0) ''/b/file'' @ '' is not mounted into the container''
             = ''/b/file is not mounted into the container''"
    by code_simp
  from convert_host_to_container_path_first_match[OF cwd, of "''/a/b/file''" "with_mounts mounts_ab mgr0"] f p
  have r1: "convert_host_to_container_path env0 (with_mounts mounts_ab mgr0) ''/a/b/file''
              = Inr (path_join2 (bind (mount ''/c1''))
             (rel_of (drop (length (components (abspath (getcwd env0) ''/a'')))
                           (components (abspath (getcwd env0) ''/a/b/file'')))))"
    by blast
  from convert_host_to_container_path_first_match[OF cwd, of "''/b/file''" "with_mounts mounts_ab mgr0"] n
  have r2: "convert_host_to_container_path env0 (with_mounts mounts_ab mgr0) ''/b/file''
              = Inl (WcEnvManagerError (abspath (getcwd env0) ''/b/file'' @ '' is not mounted into the container''))"
    by blast
  show ?thesis using cwd f p n r1 r2 unfolding v w by blast
qed

subsection \<open>No home-directory expansion\<close>

text \<open>
  C8, as the code has it. \<open>convert_host_to_container_path\<close> resolves its argument with
  \<open>abspath\<close> alone, which does not expand \<open>~\<close>: with the home directory \<open>/home/u\<close>
  mounted, \<open>~/x\<close> is resolved to \<open>/work/~/x\<close> and is not mounted, while \<open>/home/u/x\<close>
  is converted.
\<close>

theorem home_marker_not_expanded_counterexample:
  "convert_host_to_container_path env0 (with_mounts [(''/home/u'', mount ''/c'')] mgr0) ''~/x''
     = Inl (WcEnvManagerError ''/work/~/x is not mounted into the container'')
   \<and> convert_host_to_container_path env0 (with_mounts [(''/home/u'', mount ''/c'')] mgr0)
        (path_join2 (environ_HOME env0) ''x'') = Inr ''/c/x''"
  by code_simp

text \<open>
  C8, amended. Resolution is against the current working directory only: for every path
  \<open>x\<close>, converting \<open>x\<close> gives the same result as converting \<open>join(cwd, x)\<close>.
\<close>

theorem host_path_resolution_against_cwd:
  assumes "isabs (getcwd E)"
  shows "convert_host_to_container_path E self x
           = convert_host_to_container_path E self (path_join2 (getcwd E) x)"
proof -
  have "abspath (getcwd E) (path_join2 (getcwd E) x) = abspath (getcwd E) x"
  proof (cases "isabs x")
    case True
    then show ?thesis by (simp add: path_join2_def isabs_def)
  next
    case False
    have "isabs (path_join2 (getcwd E) x)"
      using abspath_abs[OF assms, of x] False by (simp add: absq_def)
    then show ?thesis using False by (simp add: abspath_def)
  qed
  then show ?thesis by (simp add: convert_host_to_container_path_def)
qed

theorem host_path_resolution_against_cwd_witness:
  "isabs (getcwd env0)
   \<and> convert_host_to_container_path env0 (with_mounts [(''/work'', mount ''/c'')] mgr0) ''~/x''
       = convert_host_to_container_path env0 (with_mounts [(''/work'', mount ''/c'')] mgr0) ''/work/~/x''"
proof -
  have cwd: "isabs (getcwd env0)" by code_simp
  have j: "path_join2 (getcwd env0) ''~/x'' = ''/work/~/x''" by code_simp
  show ?thesis
    using cwd host_path_resolution_against_cwd[OF cwd, of "with_mounts [(''/work'', mount ''/c'')] mgr0" "''~/x''"]
    unfolding j by blast
qed

subsection \<open>The round trip\<close>

text \<open>
  C2, as the code has it. With the single mount \<open>/a -> /c\<close>, the host path \<open>/a\<close> is
  matched by exactly one entry, is converted to \<open>/c/.\<close> and comes back as \<open>/a/.\<close>,
  which is not the resolved form \<open>/a\<close>.
\<close>

theorem round_trip_counterexample:
  "length (filter (\<lambda>(k, a). is_under (abspath (getcwd env0) k) (abspath (getcwd env0) ''/a''))
            (paths_to_mount_to_docker_container (with_mounts [(''/a'', mount ''/c'')] mgr0))) = 1
   \<and> round_trip env0 (with_mounts [(''/a'', mount ''/c'')] mgr0) ''/a'' = Inr ''/a/.''
   \<and> abspath (getcwd env0) ''/a'' = ''/a''"
  by code_simp

text \<open>
  C2, amended. Let the first entry whose resolved host path is a prefix of the resolved
  host path be a directory-boundary match, and let the same entry be the first whose
  container path is a prefix of the converted path. Then the round trip returns a path
  whose resolved form is the resolved form of the host path; the returned string is the
  resolved host path itself when the entry's key is already resolved and the host path
  lies strictly below it.
\<close>

theorem round_trip_up_to_normalisation:
  assumes cwd: "isabs (getcwd E)"
    and first_host: "find (\<lambda>(k', a'). prefix (abspath (getcwd E) k') (abspath (getcwd E) h))
                       (paths_to_mount_to_docker_container self) = Some (k, a)"
    and under: "is_under (abspath (getcwd E) k) (abspath (getcwd E) h)"
    and c: "convert_host_to_container_path E self h = Inr c"
    and first_container: "find (\<lambda>(k', a'). prefix (bind a') c)
                       (paths_to_mount_to_docker_container self) = Some (k, a)"
  shows "\<exists>h'. round_trip E self h = Inr h'
              \<and> abspath (getcwd E) h' = abspath (getcwd E) h
              \<and> (abspath (getcwd E) k = k \<and> abspath (getcwd E) h \<noteq> k \<longrightarrow> h' = abspath (getcwd E) h)"
proof -
  let ?cwd = "getcwd E"
  let ?K = "abspath ?cwd k" and ?H = "abspath ?cwd h"
  let ?ks = "components ?K" and ?hs = "components ?H"
  define rest where "rest = drop (length ?ks) ?hs"
  have pre: "prefix ?ks ?hs" and sl: "initial_slashes ?K = initial_slashes ?H"
    using under by (simp_all add: is_under_def)
  have hs: "?hs = ?ks @ rest" using pre by (auto simp: rest_def prefix_def)
  have cl: "\<forall>c\<in>set rest. clean c"
    using abspath_clean[OF cwd, of h] hs by auto
  note rp = rel_of_props[OF cl]
  have c_eq: "c = path_join2 (bind a) (rel_of rest)"
    using host_to_container_under[OF cwd first_host pre] c by (simp add: rest_def)
  have cne: "c \<noteq> []" using rp(1) rp(2) by (auto simp: c_eq path_join2_def)
  have "components (abspath ?cwd c) = components (abspath ?cwd (bind a)) @ rest"
    unfolding c_eq using cwd cl by (rule abspath_join2(1))
  then have rel: "relpath ?cwd c (bind a) = Inr (rel_of rest)"
    using cwd cne by (intro relpath_rest)
  let ?hb = "path_join2 k (rel_of rest)"
  have conv_back: "convert_container_to_host_path E self c = Inr ?hb"
    using first_container rel
    by (simp add: convert_container_to_host_path_def container_to_host_loop_find)
  have rt: "round_trip E self h = Inr ?hb"
    using c conv_back by (simp add: round_trip_def)
  have n1: "components (abspath ?cwd ?hb) = ?hs"
    using abspath_join2(1)[OF cwd cl, of k] hs by simp
  have n2: "initial_slashes (abspath ?cwd ?hb) = initial_slashes ?H"
    using abspath_join2(2)[OF cwd cl, of k] sl by simp
  have norm: "abspath ?cwd ?hb = ?H"
    using abspath_form[OF cwd, of ?hb] abspath_form[OF cwd, of h] n1 n2 by simp
  have exact: "?hb = ?H" if kk: "?K = k" and strict: "?H \<noteq> k"
  proof -
    have ne: "rest \<noteq> []"
    proof
      assume "rest = []"
      then have "?hs = ?ks" using hs by simp
      then have "?H = ?K"
        using abspath_form[OF cwd, of h] abspath_form[OF cwd, of k] sl by simp
      then show False using kk strict by simp
    qed
    have isl: "initial_slashes ?K = 1 \<or> initial_slashes ?K = 2"
      using initial_slashes_pos[OF normpath_facts(1)[OF abspath_abs[OF cwd, of k]]]
      by (simp add: abspath_absq)
    have "path_join2 ?K (rel_of rest)
            = replicate (initial_slashes ?K) (CHR ''/'') @ join_sep (?ks @ rest)"
      using join2_exact[OF isl abspath_clean[OF cwd, of k] cl ne] abspath_form[OF cwd, of k]
      by simp
    also have "\<dots> = ?H" using abspath_form[OF cwd, of h] hs sl by simp
    finally show ?thesis using kk by simp
  qed
  show ?thesis using rt norm exact by blast
qed

theorem round_trip_up_to_normalisation_witness:
  "isabs (getcwd env0)
   \<and> find (\<lambda>(k', a'). prefix (abspath (getcwd env0) k') (abspath (getcwd env0) ''/a/b/file''))
        (paths_to_mount_to_docker_container (with_mounts mounts_ab mgr0)) = Some (''/a'', mount ''/c1'')
   \<and> is_under (abspath (getcwd env0) ''/a'') (abspath (getcwd env0) ''/a/b/file'')
   \<and> convert_host_to_container_path env0 (with_mounts mounts_ab mgr0) ''/a/b/file'' = Inr ''/c1/b/file''
   \<and> find (\<lambda>(k', a'). prefix (bind a') ''/c1/b/file'')
        (paths_to_mount_to_docker_container (with_mounts mounts_ab mgr0)) = Some (''/a'', mount ''/c1'')
   \<and> round_trip env0 (with_mounts mounts_ab mgr0) ''/a/b/file'' = Inr ''/a/b/file''"
proof -
  have cwd: "isabs (getcwd env0)" by code_simp
  have f: "find (\<lambda>(k', a'). prefix (abspath (getcwd env0) k') (abspath (getcwd env0) ''/a/b/file''))
        (paths_to_mount_to_docker_container (with_mounts mounts_ab mgr0)) = Some (''/a'', mount ''/c1'')"
    by code_simp
  have u: "is_under (abspath (getcwd env0) ''/a'') (abspath (getcwd env0) ''/a/b/file'')"
    by code_simp
  have c: "convert_host_to_container_path env0 (with_mounts mounts_ab mgr0) ''/a/b/file'' = Inr ''/c1/b/file''"
    by code_simp
  have g: "find (\<lambda>(k', a'). prefix (bind a') ''/c1/b/file'')
        (paths_to_mount_to_docker_container (with_mounts mounts_ab mgr0)) = Some (''/a'', mount ''/c1'')"
    by code_simp
  have k: "abspath (getcwd env0) ''/a'' = ''/a''" and h: "abspath (getcwd env0) ''/a/b/file'' = ''/a/b/file''"
    by code_simp+
  from round_trip_up_to_normalisation[OF cwd f u c g] k h
  have "round_trip env0 (with_mounts mounts_ab mgr0) ''/a/b/file'' = Inr ''/a/b/file''"
    by auto
  then show ?thesis using cwd f u c g by blast
qed

subsection \<open>Running a process in the container\<close>

lemma run_process_ok:
  assumes "docker_container s = Some c"
    and "exec_run E (calls s) (ExecRun (name c) cmd wd (Some env) (WcEnvUser_name u)) = Inr (out, code)"
    and "\<not> check \<or> code = 0"
  shows "run_process_in_docker_container E cmd wd env check u s
           = (Inr (butlast out, code),
              s\<lparr>calls := calls s @ [ExecRun (name c) cmd wd (Some env) (WcEnvUser_name u)]\<rparr>)"
  using assms
  by (auto simp: run_process_in_docker_container_def seq_def current_container_def perform_def ret_def)

subsection \<open>The overwrite gate of a file copy\<close>

text \<open>
  C3. Let the idempotence check of \<open>copy_path_to_docker_container\<close> run (exit code 0).
  If it reports the destination present (a non-empty answer) and \<open>overwrite\<close> is false,
  the operation fails with \<open>WcEnvManagerError('File ... already exists')\<close>, the check is
  the only call issued, and the number of copy actions (\<open>docker cp\<close>) stays as it was.
  If the destination is absent or \<open>overwrite\<close> is true, the copy action is issued, once,
  right after the check.
\<close>

theorem copy_path_overwrite_gate:
  assumes "docker_container s = Some c"
    and "exec_run E (calls s)
           (ExecRun (name c) (path_check_cmd p) None (Some []) (WcEnvUser_name u)) = Inr (out, 0)"
  shows "(butlast out \<noteq> [] \<and> \<not> overwrite \<longrightarrow>
            fst (copy_path_to_docker_container E l p overwrite u s)
              = Inl (WcEnvManagerError (''File '' @ p @ '' already exists''))
          \<and> calls (snd (copy_path_to_docker_container E l p overwrite u s))
              = calls s @ [ExecRun (name c) (path_check_cmd p) None (Some []) (WcEnvUser_name u)]
          \<and> length (filter is_copy_action (calls (snd (copy_path_to_docker_container E l p overwrite u s))))
              = length (filter is_copy_action (calls s)))
       \<and> (butlast out = [] \<or> overwrite \<longrightarrow>
            calls (snd (copy_path_to_docker_container E l p overwrite u s))
              = calls s @ [ExecRun (name c) (path_check_cmd p) None (Some []) (WcEnvUser_name u),
                           SubprocessRun [''docker'', ''cp'', l, name c @ '':'' @ p]]
          \<and> length (filter is_copy_action (calls (snd (copy_path_to_docker_container E l p overwrite u s))))
              = Suc (length (filter is_copy_action (calls s))))"
proof -
  let ?chk = "ExecRun (name c) (path_check_cmd p) None (Some []) (WcEnvUser_name u)"
  have r: "run_process_in_docker_container E (path_check_cmd p) None [] True u s
             = (Inr (butlast out, 0), s\<lparr>calls := calls s @ [?chk]\<rparr>)"
    using assms by (intro run_process_ok) auto
  have nc: "\<not> is_copy_action ?chk" by simp
  show ?thesis
    using assms(1) nc
    by (auto simp: copy_path_to_docker_container_def r raise_def
        current_container_def seq_def run_process_on_host_def perform_def ret_def
        split: sum.splits)
qed

theorem copy_path_overwrite_gate_witness:
  "docker_container mgr1 = Some box
   \<and> exec_run env_exists (calls mgr1)
        (ExecRun (name box) (path_check_cmd ''/c/x'') None (Some []) (WcEnvUser_name root)) = Inr (''1\<newline>'', 0)
   \<and> butlast ''1\<newline>'' \<noteq> []
   \<and> fst (copy_path_to_docker_container env_exists ''/h/x'' ''/c/x'' False root mgr1)
        = Inl (WcEnvManagerError ''File /c/x already exists'')
   \<and> length (filter is_copy_action
        (calls (snd (copy_path_to_docker_container env_exists ''/h/x'' ''/c/x'' False root mgr1)))) = 0
   \<and> length (filter is_copy_action
        (calls (snd (copy_path_to_docker_container env_exists ''/h/x'' ''/c/x'' True root mgr1)))) = 1"
proof -
  have a: "docker_container mgr1 = Some box" by (simp add: mgr1_def)
  have b: "exec_run env_exists (calls mgr1)
        (ExecRun (name box) (path_check_cmd ''/c/x'') None (Some []) (WcEnvUser_name root)) = Inr (''1\<newline>'', 0)"
    by (simp add: env_exists_def)
  have c: "butlast ''1\<newline>'' \<noteq> []" by simp
  have z: "length (filter is_copy_action (calls mgr1)) = 0" by (simp add: mgr1_def mgr0_def)
  from copy_path_overwrite_gate[OF a b, of False "''/h/x''"] c
  have 1: "fst (copy_path_to_docker_container env_exists ''/h/x'' ''/c/x'' False root mgr1)
        = Inl (WcEnvManagerError (''File '' @ ''/c/x'' @ '' already exists''))"
    and 2: "length (filter is_copy_action
        (calls (snd (copy_path_to_docker_container env_exists ''/h/x'' ''/c/x'' False root mgr1))))
        = length (filter is_copy_action (calls mgr1))"
    by blast+
  from copy_path_overwrite_gate[OF a b, of True "''/h/x''"]
  have 3: "length (filter is_copy_action
        (calls (snd (copy_path_to_docker_container env_exists ''/h/x'' ''/c/x'' True root mgr1))))
        = Suc (length (filter is_copy_action (calls mgr1)))"
    by blast
  show ?thesis using a b c 1 2 3 z by simp
qed

subsection \<open>The SSH probe\<close>

text \<open>
  C5. \<open>test_github_ssh_access_in_docker_container\<close> runs the probe with \<open>check=False\<close>:
  whatever exit code the probe returns, nothing is raised, and the result is true exactly
  when the exit code is 1 and the output, as \<open>run_process_in_docker_container\<close> returns
  it (the decoded output without its final character), contains
  \<open>successfully authenticated\<close>.
\<close>

theorem test_github_ssh_access_inverted_signal:
  assumes "docker_container s = Some c"
    and "exec_run E (calls s)
           (ExecRun (name c) (Shell ''ssh -T git@github.com'') None (Some []) (WcEnvUser_name root))
           = Inr (out, code)"
  shows "test_github_ssh_access_in_docker_container E s
           = (Inr (code = 1 \<and> sublist ''successfully authenticated'' (butlast out)),
              s\<lparr>calls := calls s @ [ExecRun (name c) (Shell ''ssh -T git@github.com'') None (Some [])
                                       (WcEnvUser_name root)]\<rparr>)"
proof -
  have r: "run_process_in_docker_container E (Shell ''ssh -T git@github.com'') None [] False root s
             = (Inr (butlast out, code),
                s\<lparr>calls := calls s @ [ExecRun (name c) (Shell ''ssh -T git@github.com'') None (Some [])
                                       (WcEnvUser_name root)]\<rparr>)"
    using assms by (intro run_process_ok) auto
  show ?thesis
    by (simp add: test_github_ssh_access_in_docker_container_def seq_def r ret_def re_search_def)
qed

theorem test_github_ssh_access_inverted_signal_witness:
  "docker_container mgr1 = Some box
   \<and> exec_run env1 (calls mgr1)
        (ExecRun (name box) (Shell ''ssh -T git@github.com'') None (Some []) (WcEnvUser_name root))
        = Inr (ssh_ok_output, 1)
   \<and> fst (test_github_ssh_access_in_docker_container env1 mgr1) = Inr True
   \<and> exec_run env0 (calls mgr1)
        (ExecRun (name box) (Shell ''ssh -T git@github.com'') None (Some []) (WcEnvUser_name root))
        = Inr ([], 0)
   \<and> fst (test_github_ssh_access_in_docker_container env0 mgr1) = Inr False"
proof -
  have a: "docker_container mgr1 = Some box" by (simp add: mgr1_def)
  have b: "exec_run env1 (calls mgr1)
        (ExecRun (name box) (Shell ''ssh -T git@github.com'') None (Some []) (WcEnvUser_name root))
        = Inr (ssh_ok_output, 1)"
    by (simp add: env1_def)
  have b0: "exec_run env0 (calls mgr1)
        (ExecRun (name box) (Shell ''ssh -T git@github.com'') None (Some []) (WcEnvUser_name root))
        = Inr ([], 0)"
    by (simp add: env0_def)
  have v: "sublist ''successfully authenticated'' (butlast ssh_ok_output)"
    unfolding ssh_ok_output_def by code_simp
  from test_github_ssh_access_inverted_signal[OF a b] v
  have 1: "fst (test_github_ssh_access_in_docker_container env1 mgr1) = Inr True" by simp
  from test_github_ssh_access_inverted_signal[OF a b0]
  have 2: "fst (test_github_ssh_access_in_docker_container env0 mgr1) = Inr False" by simp
  show ?thesis using a b b0 1 2 by blast
qed

subsection \<open>Creating a container\<close>

text \<open>
  C4, as the code has it. The execution identity passed to \<open>containers.run\<close> is
  \<open>WcEnvUser.root\<close>, the user with id 0, not an unprivileged user.
\<close>

theorem create_docker_container_identity_counterexample:
  "map run_user (calls (snd (create_docker_container env0 True mgr0))) = [Some (WcEnvUser_name root)]
   \<and> WcEnvUser_value root = 0
   \<and> WcEnvUser_name root \<noteq> WcEnvUser_name container_user"
  by (simp add: create_docker_container_def make_docker_container_name_def seq_def perform_def
      env0_def mgr0_def)

text \<open>
  C4, amended. \<open>create_docker_container\<close> takes the name from the clock and the name
  format, invokes \<open>containers.run\<close> once with the base image repository, that name, the
  mount table, \<open>stdin_open=True\<close>, the given \<open>tty\<close>, \<open>detach=True\<close> and the fixed user
  \<open>root\<close>, and stores the container returned as the current container.
\<close>

theorem create_docker_container_runs_as_root:
  assumes "containers_run E (calls s)
             (ContainersRun (base_docker_image_repo s)
                (strftime_now E (calls s) (docker_container_name_format s))
                (paths_to_mount_to_docker_container s) True tty True (WcEnvUser_name root)) = Inr c"
  shows "create_docker_container E tty s
           = (Inr c,
              s\<lparr>calls := calls s @
                    [ContainersRun (base_docker_image_repo s)
                       (strftime_now E (calls s) (docker_container_name_format s))
                       (paths_to_mount_to_docker_container s) True tty True ''root''],
                 docker_container := Some c\<rparr>)"
  using assms
  by (simp add: create_docker_container_def make_docker_container_name_def seq_def perform_def)

theorem create_docker_container_runs_as_root_witness:
  "containers_run env0 (calls mgr0)
     (ContainersRun (base_docker_image_repo mgr0)
        (strftime_now env0 (calls mgr0) (docker_container_name_format mgr0))
        (paths_to_mount_to_docker_container mgr0) True True True (WcEnvUser_name root))
     = Inr \<lparr>name = ''wc_env-2018-08-23-12-00-00'', short_id = ''0a1b''\<rparr>
   \<and> docker_container (snd (create_docker_container env0 True mgr0))
       = Some \<lparr>name = ''wc_env-2018-08-23-12-00-00'', short_id = ''0a1b''\<rparr>
   \<and> calls (snd (create_docker_container env0 True mgr0))
       = [ContainersRun ''karrlab/wc_env_dependencies'' ''wc_env-2018-08-23-12-00-00'' [] True True True ''root'']"
proof -
  have a: "containers_run env0 (calls mgr0)
     (ContainersRun (base_docker_image_repo mgr0)
        (strftime_now env0 (calls mgr0) (docker_container_name_format mgr0))
        (paths_to_mount_to_docker_container mgr0) True True True (WcEnvUser_name root))
     = Inr \<lparr>name = ''wc_env-2018-08-23-12-00-00'', short_id = ''0a1b''\<rparr>"
    by (simp add: env0_def)
  show ?thesis
    using a create_docker_container_runs_as_root[OF a]
    by (simp add: env0_def mgr0_def)
qed

subsection \<open>The latest container\<close>

lemma read_times_map:
  "\<forall>c\<in>set cs. stats_read E c = Inr (t c) \<Longrightarrow> read_times E cs = Inr (map t cs)"
  by (induction cs) auto

lemma insort_key_pair:
  "insort_key fst (t x, x) (map (\<lambda>y. (t y, y)) ys) = map (\<lambda>y. (t y, y)) (insort_key t x ys)"
  by (induction ys) auto

lemma sort_key_pair:
  "sort_key fst (map (\<lambda>y. (t y, y)) ys) = map (\<lambda>y. (t y, y)) (sort_key t ys)"
  by (induction ys) (auto simp: insort_key_pair)

lemma sort_reverse_keys: "sort_reverse (map t xs) xs = rev (sort_key t (rev xs))"
proof -
  have "zip (map t xs) xs = map (\<lambda>y. (t y, y)) xs"
    by (induction xs) auto
  then have "sort_reverse (map t xs) xs
               = map snd (rev (sort_key fst (map (\<lambda>y. (t y, y)) (rev xs))))"
    by (simp add: sort_reverse_def rev_map)
  also have "\<dots> = map snd (rev (map (\<lambda>y. (t y, y)) (sort_key t (rev xs))))"
    by (simp only: sort_key_pair)
  also have "\<dots> = rev (sort_key t (rev xs))"
    by (simp add: rev_map o_def)
  finally show ?thesis .
qed

lemma sorted_last_max:
  "sorted (map t ys) \<Longrightarrow> ys \<noteq> [] \<Longrightarrow> y \<in> set ys \<Longrightarrow> t y \<le> t (last ys)"
proof (induction ys)
  case Nil then show ?case by simp
next
  case (Cons a ys)
  then show ?case by (cases "ys = []") auto
qed

lemma sort_reverse_props:
  shows "mset (sort_reverse (map t xs) xs) = mset xs"
    and "sorted (rev (map t (sort_reverse (map t xs) xs)))"
    and "xs \<noteq> [] \<Longrightarrow> sort_reverse (map t xs) xs \<noteq> []"
    and "sort_reverse (map t xs) xs = c # r \<Longrightarrow> d \<in> set xs \<Longrightarrow> t d \<le> t c"
proof -
  let ?ys = "sort_key t (rev xs)"
  have e: "sort_reverse (map t xs) xs = rev ?ys" by (rule sort_reverse_keys)
  show "mset (sort_reverse (map t xs) xs) = mset xs" by (simp add: e)
  show "sorted (rev (map t (sort_reverse (map t xs) xs)))"
    by (simp add: e rev_map[symmetric] del: rev_map)
  show "xs \<noteq> [] \<Longrightarrow> sort_reverse (map t xs) xs \<noteq> []"
    unfolding e by (metis length_sort length_rev length_0_conv rev_is_Nil_conv)
  show "t d \<le> t c" if h: "sort_reverse (map t xs) xs = c # r" and d: "d \<in> set xs"
  proof -
    have ne: "?ys \<noteq> []" using h e by auto
    have "last ?ys = c" using h e ne by (metis last_rev list.sel(1) rev_rev_ident)
    moreover have "t d \<le> t (last ?ys)"
      using d ne by (intro sorted_last_max) auto
    ultimately show ?thesis by simp
  qed
qed

text \<open>
  C6. When the listing and the statistics of the managed containers are available,
  \<open>get_docker_containers\<close> with \<open>sort_by_read_time\<close> returns the managed containers of
  the listing (those whose name parses against the name format), each once, in descending
  order of the read time of their statistics; \<open>get_latest_docker_container\<close> returns the
  first of them, a managed container of greatest read time, and \<open>None\<close> when there is no
  managed container. The manager is left unchanged.
\<close>

theorem get_latest_docker_container_latest_read_time:
  assumes lst: "containers_list E True = Inr listed"
    and st: "\<forall>c\<in>set listed. is_managed E s c \<longrightarrow> stats_read E c = Inr (read_time c)"
  shows "\<exists>xs. get_docker_containers E True s = (Inr xs, s)
           \<and> mset xs = mset (filter (is_managed E s) listed)
           \<and> sorted (rev (map read_time xs))
           \<and> get_latest_docker_container E s = (Inr (case xs of [] \<Rightarrow> None | c # r \<Rightarrow> Some c), s)
           \<and> (filter (is_managed E s) listed = [] \<longrightarrow> xs = [])
           \<and> (\<forall>c r. xs = c # r \<longrightarrow>
                 c \<in> set listed \<and> is_managed E s c
                 \<and> (\<forall>d\<in>set listed. is_managed E s d \<longrightarrow> read_time d \<le> read_time c))
           \<and> (filter (is_managed E s) listed \<noteq> [] \<longrightarrow> xs \<noteq> [])"
proof -
  let ?m = "filter (is_managed E s) listed"
  let ?xs = "sort_reverse (map read_time ?m) ?m"
  have k: "read_times E ?m = Inr (map read_time ?m)"
    using st by (intro read_times_map) auto
  have g: "get_docker_containers E True s = (Inr ?xs, s)"
    by (simp add: get_docker_containers_def lst k Let_def)
  have l: "get_latest_docker_container E s = (Inr (case ?xs of [] \<Rightarrow> None | c # r \<Rightarrow> Some c), s)"
    by (simp add: get_latest_docker_container_def seq_def g ret_def split: list.splits)
  note p = sort_reverse_props[where t = read_time and xs = ?m]
  have e: "?m = [] \<longrightarrow> ?xs = []" by (simp add: sort_reverse_def)
  have mx: "\<forall>c r. ?xs = c # r \<longrightarrow>
                 c \<in> set listed \<and> is_managed E s c
                 \<and> (\<forall>d\<in>set listed. is_managed E s d \<longrightarrow> read_time d \<le> read_time c)"
  proof (intro allI impI)
    fix c r assume h: "?xs = c # r"
    have "c \<in> set ?xs" using h by simp
    then have "c \<in># mset ?m" using p(1) by (metis set_mset_mset)
    then have "c \<in> set listed \<and> is_managed E s c" by simp
    moreover have "\<forall>d\<in>set listed. is_managed E s d \<longrightarrow> read_time d \<le> read_time c"
      using p(4)[OF h] by simp
    ultimately show "c \<in> set listed \<and> is_managed E s c
                 \<and> (\<forall>d\<in>set listed. is_managed E s d \<longrightarrow> read_time d \<le> read_time c)"
      by blast
  qed
  show ?thesis
    using g l p(1) p(2) p(3) e mx by blast
qed

theorem get_latest_docker_container_latest_read_time_witness:
  "containers_list env_ab True = Inr [box_a, box_other, box_b]
   \<and> stats_read env_ab box_a = Inr 10 \<and> stats_read env_ab box_b = Inr 20
   \<and> is_managed env_ab mgr0 box_a \<and> is_managed env_ab mgr0 box_b \<and> \<not> is_managed env_ab mgr0 box_other
   \<and> fst (get_latest_docker_container env_ab mgr0) = Inr (Some box_b)"
proof -
  have l: "containers_list env_ab True = Inr [box_a, box_other, box_b]" by (simp add: env_ab_def)
  have m: "is_managed env_ab mgr0 box_a" "is_managed env_ab mgr0 box_b" "\<not> is_managed env_ab mgr0 box_other"
    by (simp_all add: is_managed_def env_ab_def env0_def mgr0_def box_a_def box_b_def box_other_def)
  have st: "\<forall>c\<in>set [box_a, box_other, box_b]. is_managed env_ab mgr0 c \<longrightarrow> stats_read env_ab c = Inr (read_time_ab c)"
    by (simp add: env_ab_def)
  have rt: "read_time_ab box_a = 10" "read_time_ab box_b = 20"
    by (simp_all add: read_time_ab_def box_a_def box_b_def)
  have f: "filter (is_managed env_ab mgr0) [box_a, box_other, box_b] \<noteq> []"
    using m by simp
  from get_latest_docker_container_latest_read_time[OF l st] f
  obtain xs where xs:
    "get_latest_docker_container env_ab mgr0 = (Inr (case xs of [] \<Rightarrow> None | c # r \<Rightarrow> Some c), mgr0)"
    "\<forall>c r. xs = c # r \<longrightarrow>
        c \<in> set [box_a, box_other, box_b] \<and> is_managed env_ab mgr0 c
        \<and> (\<forall>d\<in>set [box_a, box_other, box_b]. is_managed env_ab mgr0 d \<longrightarrow> read_time_ab d \<le> read_time_ab c)"
    "xs \<noteq> []"
    by blast
  from xs(3) obtain c r where cr: "xs = c # r" by (cases xs) auto
  with xs(2) have c: "c \<in> set [box_a, box_other, box_b]" "is_managed env_ab mgr0 c"
    "read_time_ab box_b \<le> read_time_ab c"
    using m(2) by auto
  have "c = box_b" using c m(3) rt by auto
  then have "fst (get_latest_docker_container env_ab mgr0) = Inr (Some box_b)"
    using xs(1) cr by simp
  then show ?thesis using l m rt by (simp add: env_ab_def)
qed

subsection \<open>The class under which failures are reported\<close>

lemma build_outcome_of_failure:
  assumes "isdir E (calls s) (docker_image_context_path s)"
    and "open_file E (calls s) (dockerfile_path s) = None"
    and "images_build E (calls s)
           (ImagesBuild (docker_image_context_path s) (dockerfile_path s) True
              (docker_image_build_args s)) = Inl e"
  shows "fst (build_base_docker_image E s) = Inl (build_error E e)"
  using assms by (simp add: build_base_docker_image_def perform_def)

lemma build_error_class:
  "is_Exception e \<Longrightarrow> class_name (build_error E e) = ''WcEnvManagerError''"
  by (cases e) simp_all

lemma build_error_not_caught: "\<not> is_Exception e \<Longrightarrow> build_error E e = e"
  by (cases e) simp_all

lemma build_error_other:
  assumes "is_Exception e"
    and "\<forall>m. e \<noteq> ConnectionError m \<and> e \<noteq> APIError m \<and> e \<noteq> ImageNotFound m \<and> e \<noteq> BuildError m"
  shows "build_error E e
           = WcEnvManagerError (class_name e @ '':\<newline>  '' @ indent_lines (exn_str E e))"
  using assms by (cases e) simp_all

lemma run_process_command_error:
  assumes "docker_container s = Some c"
    and "exec_run E (calls s) (ExecRun (name c) cmd (Some w) (Some env) (WcEnvUser_name u))
           = Inr (out, code)"
    and "code \<noteq> 0" "w \<noteq> []"
  shows "fst (run_process_in_docker_container E cmd (Some w) env True u s)
           = Inl (WcEnvManagerError (command_error_message E cmd w env code out))"
  using assms
  by (simp add: run_process_in_docker_container_def seq_def current_container_def perform_def
      ret_def raise_def)

lemma run_process_command_error_pwd:
  assumes "docker_container s = Some c"
    and "exec_run E (calls s) (ExecRun (name c) cmd None (Some env) (WcEnvUser_name u))
           = Inr (out, code)"
    and "code \<noteq> 0"
    and "exec_run E (calls s @ [ExecRun (name c) cmd None (Some env) (WcEnvUser_name u)])
           (ExecRun (name c) (Shell ''pwd'') None None (WcEnvUser_name u)) = Inr (out2, code2)"
  shows "fst (run_process_in_docker_container E cmd None env True u s)
           = Inl (WcEnvManagerError (command_error_message E cmd (butlast out2) env code out))"
  using assms
  by (simp add: run_process_in_docker_container_def seq_def current_container_def perform_def
      ret_def raise_def)

lemma copy_path_to_already_exists:
  assumes "docker_container s = Some c"
    and "exec_run E (calls s)
           (ExecRun (name c) (path_check_cmd p) None (Some []) (WcEnvUser_name u)) = Inr (out, 0)"
    and "butlast out \<noteq> []"
  shows "fst (copy_path_to_docker_container E l p False u s)
           = Inl (WcEnvManagerError (''File '' @ p @ '' already exists''))"
proof -
  have r: "run_process_in_docker_container E (path_check_cmd p) None [] True u s
             = (Inr (butlast out, 0),
                s\<lparr>calls := calls s @ [ExecRun (name c) (path_check_cmd p) None (Some [])
                                         (WcEnvUser_name u)]\<rparr>)"
    using assms(1,2) by (intro run_process_ok) auto
  show ?thesis
    using assms(3) by (simp add: copy_path_to_docker_container_def seq_def r raise_def)
qed

text \<open>
  C9, as the code has it. A connection error, an API error and a build error of the image
  build, and a path that is not mounted, all reach the caller under the same class,
  \<open>WcEnvManagerError\<close>.
\<close>

theorem build_failures_collapse_counterexample:
  "failure_kind (fst (build_base_docker_image (env_build_fails (ConnectionError ''refused'')) mgr0))
     = Some ''WcEnvManagerError''
   \<and> failure_kind (fst (build_base_docker_image (env_build_fails (APIError ''syntax'')) mgr0))
     = Some ''WcEnvManagerError''
   \<and> failure_kind (fst (build_base_docker_image (env_build_fails (BuildError ''exit 1'')) mgr0))
     = Some ''WcEnvManagerError''
   \<and> failure_kind (convert_host_to_container_path env0 mgr0 ''/x'') = Some ''WcEnvManagerError''"
  by (simp add: failure_kind_def build_base_docker_image_def env_build_fails_def perform_def
      convert_host_to_container_path_def env0_def mgr0_def)

text \<open>
  C9, amended. The failures for which the module has a \<open>raise\<close> statement are all
  reported as the one class \<open>WcEnvManagerError\<close> and differ in the message only: an
  image context that is not a directory, a path that is not mounted (in either direction),
  a destination that already exists (in either direction), a command that fails in the
  container, and every subclass of \<open>Exception\<close> raised by \<open>images.build\<close>. For the
  build the message begins with \<open>Docker connection error\<close>, \<open>Docker API error\<close> or
  \<open>Docker build error\<close> for the three classes it distinguishes and with the class name
  for any other subclass of \<open>Exception\<close>; an exception that is not a subclass of
  \<open>Exception\<close> leaves the build as it is.
\<close>

theorem raised_failures_are_WcEnvManagerError:
  "(\<not> isdir E (calls s) (docker_image_context_path s) \<longrightarrow>
      fst (build_base_docker_image E s)
        = Inl (WcEnvManagerError (''Docker image context '' @ dquote @ docker_image_context_path s
                                  @ dquote @ '' must be a directory'')))
   \<and> (isdir E (calls s) (docker_image_context_path s)
        \<and> open_file E (calls s) (dockerfile_path s) = None
        \<and> images_build E (calls s)
             (ImagesBuild (docker_image_context_path s) (dockerfile_path s) True
                (docker_image_build_args s)) = Inl e \<longrightarrow>
        (is_Exception e \<longrightarrow>
           failure_kind (fst (build_base_docker_image E s)) = Some ''WcEnvManagerError'')
      \<and> (\<forall>m. e = ConnectionError m \<longrightarrow> fst (build_base_docker_image E s)
             = Inl (WcEnvManagerError
                 (''Docker connection error: service must be running:\<newline>  '' @ indent_lines m)))
      \<and> (\<forall>m. e = APIError m \<or> e = ImageNotFound m \<longrightarrow> fst (build_base_docker_image E s)
             = Inl (WcEnvManagerError
                 (''Docker API error: Dockerfile contains syntax errors:\<newline>  '' @ indent_lines m)))
      \<and> (\<forall>m. e = BuildError m \<longrightarrow> fst (build_base_docker_image E s)
             = Inl (WcEnvManagerError
                 (''Docker build error: Error building Dockerfile:\<newline>  '' @ indent_lines m)))
      \<and> (is_Exception e
           \<and> (\<forall>m. e \<noteq> ConnectionError m \<and> e \<noteq> APIError m \<and> e \<noteq> ImageNotFound m
                   \<and> e \<noteq> BuildError m) \<longrightarrow>
           fst (build_base_docker_image E s)
             = Inl (WcEnvManagerError
                 (class_name e @ '':\<newline>  '' @ indent_lines (exn_str E e))))
      \<and> (\<not> is_Exception e \<longrightarrow> fst (build_base_docker_image E s) = Inl e))
   \<and> (find (\<lambda>(k, a). prefix (abspath (getcwd E) k) (abspath (getcwd E) h))
         (paths_to_mount_to_docker_container s) = None \<longrightarrow>
        convert_host_to_container_path E s h
          = Inl (WcEnvManagerError (abspath (getcwd E) h @ '' is not mounted into the container'')))
   \<and> (find (\<lambda>(k, a). prefix (bind a) cp) (paths_to_mount_to_docker_container s) = None \<longrightarrow>
        convert_container_to_host_path E s cp
          = Inl (WcEnvManagerError (cp @ '' is not mounted into the container'')))
   \<and> (docker_container s = Some c
        \<and> exec_run E (calls s)
             (ExecRun (name c) (path_check_cmd p) None (Some []) (WcEnvUser_name u)) = Inr (out, 0)
        \<and> butlast out \<noteq> [] \<longrightarrow>
        fst (copy_path_to_docker_container E l p False u s)
          = Inl (WcEnvManagerError (''File '' @ p @ '' already exists'')))
   \<and> (isfile E (calls s) l \<or> isdir E (calls s) l \<longrightarrow>
        fst (copy_path_from_docker_container E p l False s)
          = Inl (WcEnvManagerError (''File '' @ l @ '' already exists'')))
   \<and> (docker_container s = Some c
        \<and> exec_run E (calls s) (ExecRun (name c) cmd (Some w) (Some env) (WcEnvUser_name u))
             = Inr (out, code)
        \<and> code \<noteq> 0 \<and> w \<noteq> [] \<longrightarrow>
        fst (run_process_in_docker_container E cmd (Some w) env True u s)
          = Inl (WcEnvManagerError (command_error_message E cmd w env code out)))
   \<and> (docker_container s = Some c
        \<and> exec_run E (calls s) (ExecRun (name c) cmd None (Some env) (WcEnvUser_name u))
             = Inr (out, code)
        \<and> code \<noteq> 0
        \<and> exec_run E (calls s @ [ExecRun (name c) cmd None (Some env) (WcEnvUser_name u)])
             (ExecRun (name c) (Shell ''pwd'') None None (WcEnvUser_name u)) = Inr (out2, code2) \<longrightarrow>
        fst (run_process_in_docker_container E cmd None env True u s)
          = Inl (WcEnvManagerError (command_error_message E cmd (butlast out2) env code out)))"
proof (intro conjI impI)
  assume "\<not> isdir E (calls s) (docker_image_context_path s)"
  then show "fst (build_base_docker_image E s)
        = Inl (WcEnvManagerError (''Docker image context '' @ dquote @ docker_image_context_path s
                                  @ dquote @ '' must be a directory''))"
    by (simp add: build_base_docker_image_def)
next
  assume a: "isdir E (calls s) (docker_image_context_path s)
        \<and> open_file E (calls s) (dockerfile_path s) = None
        \<and> images_build E (calls s)
             (ImagesBuild (docker_image_context_path s) (dockerfile_path s) True
                (docker_image_build_args s)) = Inl e"
  then have r: "fst (build_base_docker_image E s) = Inl (build_error E e)"
    by (intro build_outcome_of_failure) auto
  {
    assume "is_Exception e"
    then show "failure_kind (fst (build_base_docker_image E s)) = Some ''WcEnvManagerError''"
      by (simp add: r failure_kind_def build_error_class)
  }
  show "\<forall>m. e = ConnectionError m \<longrightarrow> fst (build_base_docker_image E s)
             = Inl (WcEnvManagerError
                 (''Docker connection error: service must be running:\<newline>  '' @ indent_lines m))"
    by (auto simp: r)
  show "\<forall>m. e = APIError m \<or> e = ImageNotFound m \<longrightarrow> fst (build_base_docker_image E s)
             = Inl (WcEnvManagerError
                 (''Docker API error: Dockerfile contains syntax errors:\<newline>  '' @ indent_lines m))"
    by (auto simp: r)
  show "\<forall>m. e = BuildError m \<longrightarrow> fst (build_base_docker_image E s)
             = Inl (WcEnvManagerError
                 (''Docker build error: Error building Dockerfile:\<newline>  '' @ indent_lines m))"
    by (auto simp: r)
  {
    assume "is_Exception e
           \<and> (\<forall>m. e \<noteq> ConnectionError m \<and> e \<noteq> APIError m \<and> e \<noteq> ImageNotFound m
                   \<and> e \<noteq> BuildError m)"
    then show "fst (build_base_docker_image E s)
             = Inl (WcEnvManagerError
                 (class_name e @ '':\<newline>  '' @ indent_lines (exn_str E e)))"
      using build_error_other[of e E] by (simp add: r)
  }
  {
    assume "\<not> is_Exception e"
    then show "fst (build_base_docker_image E s) = Inl e" by (simp add: r build_error_not_caught)
  }
next
  assume "find (\<lambda>(k, a). prefix (abspath (getcwd E) k) (abspath (getcwd E) h))
         (paths_to_mount_to_docker_container s) = None"
  then show "convert_host_to_container_path E s h
          = Inl (WcEnvManagerError (abspath (getcwd E) h @ '' is not mounted into the container''))"
    by (rule host_to_container_unmounted)
next
  assume "find (\<lambda>(k, a). prefix (bind a) cp) (paths_to_mount_to_docker_container s) = None"
  then show "convert_container_to_host_path E s cp
          = Inl (WcEnvManagerError (cp @ '' is not mounted into the container''))"
    by (simp add: convert_container_to_host_path_def container_to_host_loop_find)
next
  assume "docker_container s = Some c
        \<and> exec_run E (calls s)
             (ExecRun (name c) (path_check_cmd p) None (Some []) (WcEnvUser_name u)) = Inr (out, 0)
        \<and> butlast out \<noteq> []"
  then show "fst (copy_path_to_docker_container E l p False u s)
          = Inl (WcEnvManagerError (''File '' @ p @ '' already exists''))"
    by (intro copy_path_to_already_exists) auto
next
  assume "isfile E (calls s) l \<or> isdir E (calls s) l"
  then show "fst (copy_path_from_docker_container E p l False s)
          = Inl (WcEnvManagerError (''File '' @ l @ '' already exists''))"
    by (auto simp: copy_path_from_docker_container_def raise_def)
next
  assume "docker_container s = Some c
        \<and> exec_run E (calls s) (ExecRun (name c) cmd (Some w) (Some env) (WcEnvUser_name u))
             = Inr (out, code)
        \<and> code \<noteq> 0 \<and> w \<noteq> []"
  then show "fst (run_process_in_docker_container E cmd (Some w) env True u s)
          = Inl (WcEnvManagerError (command_error_message E cmd w env code out))"
    by (intro run_process_command_error) auto
next
  assume "docker_container s = Some c
        \<and> exec_run E (calls s) (ExecRun (name c) cmd None (Some env) (WcEnvUser_name u))
             = Inr (out, code)
        \<and> code \<noteq> 0
        \<and> exec_run E (calls s @ [ExecRun (name c) cmd None (Some env) (WcEnvUser_name u)])
             (ExecRun (name c) (Shell ''pwd'') None None (WcEnvUser_name u)) = Inr (out2, code2)"
  then show "fst (run_process_in_docker_container E cmd None env True u s)
          = Inl (WcEnvManagerError (command_error_message E cmd (butlast out2) env code out))"
    by (intro run_process_command_error_pwd) auto
qed

theorem raised_failures_are_WcEnvManagerError_witness:
  "\<not> isdir env0 (calls mgr0) (docker_image_context_path mgr0)
   \<and> fst (build_base_docker_image env0 mgr0)
       = Inl (WcEnvManagerError (''Docker image context '' @ dquote @ ''/work'' @ dquote
                                 @ '' must be a directory''))
   \<and> images_build (env_build_fails (ConnectionError ''refused'')) (calls mgr0)
        (ImagesBuild (docker_image_context_path mgr0) (dockerfile_path mgr0) True
           (docker_image_build_args mgr0)) = Inl (ConnectionError ''refused'')
   \<and> fst (build_base_docker_image (env_build_fails (ConnectionError ''refused'')) mgr0)
       = Inl (WcEnvManagerError ''Docker connection error: service must be running:\<newline>  refused'')
   \<and> fst (build_base_docker_image (env_build_fails (ValueError ''bad'')) mgr0)
       = Inl (WcEnvManagerError ''ValueError:\<newline>  bad'')
   \<and> fst (build_base_docker_image (env_build_fails KeyboardInterrupt) mgr0) = Inl KeyboardInterrupt
   \<and> convert_host_to_container_path env0 mgr0 ''/x''
       = Inl (WcEnvManagerError ''/x is not mounted into the container'')
   \<and> fst (copy_path_to_docker_container env_exists ''/h/x'' ''/c/x'' False root mgr1)
       = Inl (WcEnvManagerError ''File /c/x already exists'')
   \<and> fst (run_process_in_docker_container env_command_fails (Shell ''false'') (Some ''/tmp'') []
             True root mgr1)
       = Inl (WcEnvManagerError
               (command_error_message env_command_fails (Shell ''false'') ''/tmp'' [] 2 ''boom\<newline>''))"
proof -
  note T = raised_failures_are_WcEnvManagerError
  have d0: "\<not> isdir env0 (calls mgr0) (docker_image_context_path mgr0)"
    by (simp add: env0_def)
  from T[where E = env0 and s = mgr0, THEN conjunct1, THEN mp, OF d0]
  have w1: "fst (build_base_docker_image env0 mgr0)
       = Inl (WcEnvManagerError (''Docker image context '' @ dquote @ docker_image_context_path mgr0
                                 @ dquote @ '' must be a directory''))"
    .
  have hyp: "isdir (env_build_fails x) (calls mgr0) (docker_image_context_path mgr0)
        \<and> open_file (env_build_fails x) (calls mgr0) (dockerfile_path mgr0) = None
        \<and> images_build (env_build_fails x) (calls mgr0)
             (ImagesBuild (docker_image_context_path mgr0) (dockerfile_path mgr0) True
                (docker_image_build_args mgr0)) = Inl x" for x
    by (simp add: env_build_fails_def env0_def)
  from T[where E = "env_build_fails (ConnectionError ''refused'')" and s = mgr0
      and e = "ConnectionError ''refused''", THEN conjunct2, THEN conjunct1, THEN mp,
      OF hyp[of "ConnectionError ''refused''"]]
  have w2: "fst (build_base_docker_image (env_build_fails (ConnectionError ''refused'')) mgr0)
       = Inl (WcEnvManagerError
           (''Docker connection error: service must be running:\<newline>  '' @ indent_lines ''refused''))"
    by blast
  have ex: "is_Exception (ValueError ''bad'')
           \<and> (\<forall>m. ValueError ''bad'' \<noteq> ConnectionError m \<and> ValueError ''bad'' \<noteq> APIError m
                   \<and> ValueError ''bad'' \<noteq> ImageNotFound m \<and> ValueError ''bad'' \<noteq> BuildError m)"
    by simp
  from T[where E = "env_build_fails (ValueError ''bad'')" and s = mgr0
      and e = "ValueError ''bad''", THEN conjunct2, THEN conjunct1, THEN mp,
      OF hyp[of "ValueError ''bad''"]] ex
  have w3: "fst (build_base_docker_image (env_build_fails (ValueError ''bad'')) mgr0)
       = Inl (WcEnvManagerError
           (class_name (ValueError ''bad'') @ '':\<newline>  ''
            @ indent_lines (exn_str (env_build_fails (ValueError ''bad'')) (ValueError ''bad''))))"
    by blast
  have nex: "\<not> is_Exception KeyboardInterrupt" by simp
  from T[where E = "env_build_fails KeyboardInterrupt" and s = mgr0 and e = KeyboardInterrupt,
      THEN conjunct2, THEN conjunct1, THEN mp, OF hyp[of KeyboardInterrupt]] nex
  have w4: "fst (build_base_docker_image (env_build_fails KeyboardInterrupt) mgr0) = Inl KeyboardInterrupt"
    by blast
  have nm: "find (\<lambda>(k, a). prefix (abspath (getcwd env0) k) (abspath (getcwd env0) ''/x''))
         (paths_to_mount_to_docker_container mgr0) = None"
    by (simp add: mgr0_def)
  from T[where E = env0 and s = mgr0 and h = "''/x''", THEN conjunct2, THEN conjunct2,
      THEN conjunct1, THEN mp, OF nm]
  have w5: "convert_host_to_container_path env0 mgr0 ''/x''
          = Inl (WcEnvManagerError (abspath (getcwd env0) ''/x'' @ '' is not mounted into the container''))"
    .
  have ax: "abspath (getcwd env0) ''/x'' = ''/x''" by code_simp
  have ce: "docker_container mgr1 = Some box
        \<and> exec_run env_exists (calls mgr1)
             (ExecRun (name box) (path_check_cmd ''/c/x'') None (Some []) (WcEnvUser_name root))
             = Inr (''1\<newline>'', 0)
        \<and> butlast ''1\<newline>'' \<noteq> []"
    by (simp add: mgr1_def env_exists_def)
  from T[where E = env_exists and s = mgr1 and c = box and p = "''/c/x''" and u = root
      and out = "''1\<newline>''" and l = "''/h/x''", THEN conjunct2, THEN conjunct2,
      THEN conjunct2, THEN conjunct2, THEN conjunct1, THEN mp, OF ce]
  have w6: "fst (copy_path_to_docker_container env_exists ''/h/x'' ''/c/x'' False root mgr1)
          = Inl (WcEnvManagerError (''File '' @ ''/c/x'' @ '' already exists''))"
    .
  have cf: "docker_container mgr1 = Some box
        \<and> exec_run env_command_fails (calls mgr1)
             (ExecRun (name box) (Shell ''false'') (Some ''/tmp'') (Some []) (WcEnvUser_name root))
             = Inr (''boom\<newline>'', 2)
        \<and> (2::int) \<noteq> 0 \<and> ''/tmp'' \<noteq> []"
    by (simp add: mgr1_def env_command_fails_def)
  from T[where E = env_command_fails and s = mgr1 and c = box and cmd = "Shell ''false''"
      and w = "''/tmp''" and env = "[]" and u = root and out = "''boom\<newline>''" and code = 2,
      THEN conjunct2, THEN conjunct2, THEN conjunct2, THEN conjunct2, THEN conjunct2,
      THEN conjunct2, THEN conjunct1, THEN mp, OF cf]
  have w7: "fst (run_process_in_docker_container env_command_fails (Shell ''false'') (Some ''/tmp'') []
             True root mgr1)
       = Inl (WcEnvManagerError
               (command_error_message env_command_fails (Shell ''false'') ''/tmp'' [] 2 ''boom\<newline>''))"
    .
  have i1: "indent_lines ''refused'' = ''refused''" "indent_lines ''bad'' = ''bad''"
    by (simp_all add: indent_lines_def)
  have c0: "docker_image_context_path mgr0 = ''/work''" by (simp add: mgr0_def)
  show ?thesis
    using d0 w1 hyp[of "ConnectionError ''refused''"] w2 w3 w4 w5 w6 w7
    by (simp add: i1 c0 ax)
qed

subsection \<open>The install steps of a setup\<close>

lemma yields_cong: "A s = B s \<Longrightarrow> yields A s P = yields B s P"
  by (simp add: yields_def)

lemma yields_weaken: "yields A s P \<Longrightarrow> (\<And>t. P t \<Longrightarrow> Q t) \<Longrightarrow> yields A s Q"
  by (auto simp: yields_def)

lemma yields_ret: "yields (ret x) s quiet"
  by (auto simp: yields_def ret_def quiet_def install_trace_def intro: exI[of _ "[]"])

lemma yields_raise: "yields (raise e) s P"
  by (auto simp: yields_def raise_def intro: exI[of _ "[]"])

lemma yields_perform: "yields (perform answer c) s (\<lambda>t. t = install_trace [c])"
  by (auto simp: yields_def perform_def)

lemma yields_seq:
  assumes m: "yields m s P"
    and f: "\<And>x new. yields (f x) (s\<lparr>calls := calls s @ new\<rparr>) Q"
  shows "yields (seq m f) s (\<lambda>t. \<exists>t1 t2. t = t1 @ t2 \<and> P t1 \<and> Q t2)"
proof -
  from m obtain new where new: "snd (m s) = s\<lparr>calls := calls s @ new\<rparr>"
    "\<forall>x. fst (m s) = Inr x \<longrightarrow> P (install_trace new)"
    by (auto simp: yields_def)
  show ?thesis
  proof (cases "fst (m s)")
    case (Inl e)
    then have "seq m f s = (Inl e, s\<lparr>calls := calls s @ new\<rparr>)"
      using new(1) by (cases "m s") (simp add: seq_def)
    then show ?thesis by (auto simp: yields_def)
  next
    case (Inr x)
    then have sq: "seq m f s = f x (s\<lparr>calls := calls s @ new\<rparr>)"
      using new(1) by (cases "m s") (simp add: seq_def)
    from f[of x new] obtain new2 where new2:
      "snd (f x (s\<lparr>calls := calls s @ new\<rparr>)) = s\<lparr>calls := calls s @ new @ new2\<rparr>"
      "\<forall>y. fst (f x (s\<lparr>calls := calls s @ new\<rparr>)) = Inr y \<longrightarrow> Q (install_trace new2)"
      by (auto simp: yields_def)
    have "P (install_trace new)" using new(2) Inr by simp
    then show ?thesis
      unfolding yields_def sq using new2
      by (intro exI[of _ "new @ new2"]) (auto simp: install_trace_def)
  qed
qed

lemma yields_seq_quiet:
  assumes "yields m s quiet" and "\<And>x new. yields (f x) (s\<lparr>calls := calls s @ new\<rparr>) P"
  shows "yields (seq m f) s P"
  using yields_seq[OF assms] by (rule yields_weaken) (auto simp: quiet_def)

lemma yields_for_each_quiet:
  assumes "\<And>x s. yields (body x) s quiet"
  shows "yields (for_each xs body) s quiet"
proof (induction xs arbitrary: s)
  case Nil
  show ?case by (simp add: yields_ret)
next
  case (Cons x xs)
  show ?case
    unfolding for_each.simps
    by (rule yields_seq_quiet[OF assms]) (rule Cons.IH)
qed

lemma run_process_exec_fails:
  assumes "docker_container s = Some c"
    and "exec_run E (calls s) (ExecRun (name c) cmd wd (Some env) (WcEnvUser_name u)) = Inl e"
  shows "run_process_in_docker_container E cmd wd env check u s
           = (Inl e, s\<lparr>calls := calls s @ [ExecRun (name c) cmd wd (Some env) (WcEnvUser_name u)]\<rparr>)"
  using assms
  by (simp add: run_process_in_docker_container_def seq_def current_container_def perform_def)

lemma run_process_check_fails:
  assumes "docker_container s = Some c"
    and "exec_run E (calls s) (ExecRun (name c) cmd wd (Some env) (WcEnvUser_name u)) = Inr (out, code)"
    and "check" "code \<noteq> 0"
  shows "\<exists>e. fst (run_process_in_docker_container E cmd wd env check u s) = Inl e"
    and "\<exists>new. snd (run_process_in_docker_container E cmd wd env check u s) = s\<lparr>calls := calls s @ new\<rparr>"
proof -
  let ?call = "ExecRun (name c) cmd wd (Some env) (WcEnvUser_name u)"
  let ?pwd = "ExecRun (name c) (Shell ''pwd'') None None (WcEnvUser_name u)"
  let ?s1 = "s\<lparr>calls := calls s @ [?call]\<rparr>"
  let ?fetch = "seq (perform (exec_run E) ?pwd) (\<lambda>(output2, exit_code2). ret (butlast output2))"
  let ?wdir = "case wd of Some w \<Rightarrow> if w \<noteq> [] then ret w else ?fetch | None \<Rightarrow> ?fetch"
  have r: "run_process_in_docker_container E cmd wd env check u s
             = seq ?wdir (\<lambda>wd'. raise (WcEnvManagerError (command_error_message E cmd wd' env code out))) ?s1"
    using assms
    by (simp add: run_process_in_docker_container_def seq_def current_container_def perform_def)
  have f: "\<exists>new. snd (?fetch ?s1) = s\<lparr>calls := calls s @ new\<rparr>"
    by (cases "exec_run E (calls s @ [?call]) ?pwd")
       (auto simp: seq_def perform_def ret_def intro: exI[of _ "[?call, ?pwd]"])
  have w: "\<exists>new. snd (?wdir ?s1) = s\<lparr>calls := calls s @ new\<rparr>"
  proof (cases wd)
    case None then show ?thesis using f by simp
  next
    case (Some w)
    show ?thesis
    proof (cases "w = []")
      case True then show ?thesis using f Some by simp
    next
      case False then show ?thesis using Some by (auto simp: ret_def intro: exI[of _ "[?call]"])
    qed
  qed
  show "\<exists>e. fst (run_process_in_docker_container E cmd wd env check u s) = Inl e"
    unfolding r by (cases "?wdir ?s1"; cases "fst (?wdir ?s1)") (auto simp: seq_def raise_def)
  show "\<exists>new. snd (run_process_in_docker_container E cmd wd env check u s) = s\<lparr>calls := calls s @ new\<rparr>"
    unfolding r using w by (cases "?wdir ?s1"; cases "fst (?wdir ?s1)") (auto simp: seq_def raise_def)
qed

lemma yields_run_process:
  "yields (run_process_in_docker_container E cmd wd env check u) s
     (\<lambda>t. \<exists>n. t = install_trace [ExecRun n cmd wd (Some env) (WcEnvUser_name u)])"
proof (cases "docker_container s")
  case None
  then have "run_process_in_docker_container E cmd wd env check u s = (Inl (AttributeError
      (squote @ ''NoneType'' @ squote @ '' object has no attribute '' @ squote @ ''exec_run'' @ squote)), s)"
    by (simp add: run_process_in_docker_container_def seq_def current_container_def)
  then show ?thesis by (auto simp: yields_def intro: exI[of _ "[]"])
next
  case (Some c)
  let ?call = "ExecRun (name c) cmd wd (Some env) (WcEnvUser_name u)"
  show ?thesis
  proof (cases "exec_run E (calls s) ?call")
    case (Inl e)
    show ?thesis
      unfolding yields_def run_process_exec_fails[OF Some Inl]
      by (intro exI[of _ "[?call]"]) simp
  next
    case (Inr oc)
    obtain out code where oc: "oc = (out, code)" by (cases oc)
    show ?thesis
    proof (cases "check \<and> code \<noteq> 0")
      case True
      then have c: "check" "code \<noteq> 0" by auto
      from run_process_check_fails[OF Some Inr[unfolded oc] c]
      show ?thesis unfolding yields_def by auto
    next
      case False
      then have "\<not> check \<or> code = 0" by auto
      from run_process_ok[OF Some Inr[unfolded oc] this]
      show ?thesis unfolding yields_def by (intro exI[of _ "[?call]"]) auto
    qed
  qed
qed

lemma yields_run_quiet:
  "\<not> is_pip_cmd cmd \<Longrightarrow> yields (run_process_in_docker_container E cmd wd env check u) s quiet"
  by (rule yields_weaken[OF yields_run_process]) (auto simp: quiet_def install_trace_def)

lemma yields_run_on_host: "yields (run_process_on_host E cmd) s quiet"
  unfolding run_process_on_host_def
proof (rule yields_seq_quiet)
  show "yields (perform (subprocess_run E) (SubprocessRun cmd)) s quiet"
    by (rule yields_weaken[OF yields_perform]) (simp add: quiet_def install_trace_def)
  show "yields (if x \<noteq> 0 then raise (CalledProcessError x cmd) else ret ())
          (s\<lparr>calls := calls s @ new\<rparr>) quiet" for x new
    by (simp add: yields_raise yields_ret)
qed

lemma yields_current_container: "yields (current_container a) s quiet"
  by (auto simp: yields_def current_container_def quiet_def install_trace_def
      split: option.splits intro: exI[of _ "[]"])

lemma yields_copy_path: "yields (copy_path_to_docker_container E l p ow u) s quiet"
  unfolding copy_path_to_docker_container_def
proof (rule yields_seq_quiet)
  show "yields (run_process_in_docker_container E (path_check_cmd p) None [] True u) s quiet"
    by (rule yields_run_quiet) (simp add: path_check_cmd_def)
  fix x :: "string \<times> int" and new
  obtain is_path code where x: "x = (is_path, code)" by (cases x)
  have "yields (seq (current_container ''name'')
                  (\<lambda>c. run_process_on_host E [''docker'', ''cp'', l, name c @ '':'' @ p]))
          (s\<lparr>calls := calls s @ new\<rparr>) quiet"
    by (rule yields_seq_quiet[OF yields_current_container]) (rule yields_run_on_host)
  then show "yields (case x of (is_path, exit_code) \<Rightarrow>
                  if is_path \<noteq> [] \<and> \<not> ow
                  then raise (WcEnvManagerError (''File '' @ p @ '' already exists''))
                  else seq (current_container ''name'')
                         (\<lambda>c. run_process_on_host E [''docker'', ''cp'', l, name c @ '':'' @ p]))
          (s\<lparr>calls := calls s @ new\<rparr>) quiet"
    by (simp add: x yields_raise)
qed

lemma yields_install_github_ssh_host:
  "yields (install_github_ssh_host_in_docker_container E upgrade) s quiet"
  unfolding install_github_ssh_host_in_docker_container_def
proof (rule yields_seq_quiet, rule yields_run_quiet, simp)
  fix x1 :: "string \<times> int" and new1
  let ?s1 = "s\<lparr>calls := calls s @ new1\<rparr>"
  have opt: "yields (if upgrade
          then seq (run_process_in_docker_container E
                      (Shell (''bash -c '' @ dquote @ ''sed -i '' @ squote @ ''/github.com ssh-rsa/d''
                              @ squote @ '' ~/.ssh/known_hosts'' @ dquote)) None [] True root)
                 (\<lambda>r2. ret ())
          else ret ()) t quiet" for t
  proof (cases upgrade)
    case True
    have "yields (seq (run_process_in_docker_container E
                      (Shell (''bash -c '' @ dquote @ ''sed -i '' @ squote @ ''/github.com ssh-rsa/d''
                              @ squote @ '' ~/.ssh/known_hosts'' @ dquote)) None [] True root)
                 (\<lambda>r2. ret ())) t quiet"
      by (rule yields_seq_quiet, rule yields_run_quiet, simp, rule yields_ret)
    then show ?thesis using True by simp
  next
    case False then show ?thesis by (simp add: yields_ret)
  qed
  show "yields (seq (if upgrade
          then seq (run_process_in_docker_container E
                      (Shell (''bash -c '' @ dquote @ ''sed -i '' @ squote @ ''/github.com ssh-rsa/d''
                              @ squote @ '' ~/.ssh/known_hosts'' @ dquote)) None [] True root)
                 (\<lambda>r2. ret ())
          else ret ())
       (\<lambda>u.
     seq (run_process_in_docker_container E
            (Shell (''bash -c '' @ dquote @ ''ssh-keyscan github.com >> ~/.ssh/known_hosts'' @ dquote))
            None [] True root)
       (\<lambda>r3. ret ()))) ?s1 quiet"
  proof (rule yields_seq_quiet[OF opt])
    fix x2 :: unit and new2
    show "yields (seq (run_process_in_docker_container E
            (Shell (''bash -c '' @ dquote @ ''ssh-keyscan github.com >> ~/.ssh/known_hosts'' @ dquote))
            None [] True root)
       (\<lambda>r3. ret ())) (?s1\<lparr>calls := calls ?s1 @ new2\<rparr>) quiet"
      by (rule yields_seq_quiet, rule yields_run_quiet, simp, rule yields_ret)
  qed
qed

lemma yields_test_github_ssh_access:
  "yields (test_github_ssh_access_in_docker_container E) s quiet"
  unfolding test_github_ssh_access_in_docker_container_def
proof (rule yields_seq_quiet, rule yields_run_quiet, simp)
  fix x :: "string \<times> int" and new
  show "yields (case x of (message, exit_code) \<Rightarrow>
                  ret (exit_code = 1 \<and> re_search ''successfully authenticated'' message))
          (s\<lparr>calls := calls s @ new\<rparr>) quiet"
    by (cases x) (simp add: yields_ret)
qed

lemma yields_copy_third_party_path:
  "yields (copy_third_party_path E cud hcd ow entry) s quiet"
proof -
  obtain rel_src abs_dest0 where e: "entry = (rel_src, abs_dest0)" by (cases entry)
  show ?thesis
    unfolding copy_third_party_path_def e prod.case Let_def
    by (rule yields_seq_quiet, rule yields_run_quiet, simp, rule yields_copy_path)
qed

lemma yields_answer: "yields (\<lambda>s'. (g s', s')) s quiet"
  by (auto simp: yields_def quiet_def install_trace_def intro: exI[of _ "[]"])

lemma yields_copy_config_files:
  "yields (copy_config_files_to_docker_container E ow) s quiet"
  unfolding copy_config_files_to_docker_container_def
proof (rule yields_seq_quiet, rule yields_run_quiet, simp)
  fix x :: "string \<times> int" and new
  obtain cud code where x: "x = (cud, code)" by (cases x)
  let ?s1 = "s\<lparr>calls := calls s @ new\<rparr>"
  let ?hcd = "expanduser E (path_join2 ''~'' ''.wc'')"
  let ?body = "seq (copy_path_to_docker_container E ?hcd (path_join2 cud ''.wc'') ow root)
                 (\<lambda>u. seq (\<lambda>s'. (yaml_load E (calls s')
                                      (path_join ?hcd [''third_party'', ''paths.yml'']), s'))
                          (\<lambda>paths. for_each paths (copy_third_party_path E cud ?hcd ow)))"
  have b: "yields ?body ?s1 quiet"
  proof (rule yields_seq_quiet[OF yields_copy_path])
    fix u :: unit and new2
    show "yields (seq (\<lambda>s'. (yaml_load E (calls s')
                                      (path_join ?hcd [''third_party'', ''paths.yml'']), s'))
                          (\<lambda>paths. for_each paths (copy_third_party_path E cud ?hcd ow)))
            (?s1\<lparr>calls := calls ?s1 @ new2\<rparr>) quiet"
      by (rule yields_seq_quiet[OF yields_answer])
         (rule yields_for_each_quiet[OF yields_copy_third_party_path])
  qed
  have "yields (\<lambda>s. if isdir E (calls s) ?hcd then ?body s else ret () s) ?s1 quiet"
  proof (cases "isdir E (calls ?s1) ?hcd")
    case True
    then have "yields (\<lambda>s. if isdir E (calls s) ?hcd then ?body s else ret () s) ?s1 quiet
                 = yields ?body ?s1 quiet"
      by (intro yields_cong) simp
    then show ?thesis using b by simp
  next
    case False
    then have "yields (\<lambda>s. if isdir E (calls s) ?hcd then ?body s else ret () s) ?s1 quiet
                 = yields (ret ()) ?s1 quiet"
      by (intro yields_cong) simp
    then show ?thesis by (simp add: yields_ret)
  qed
  then show "yields (case x of (container_user_dirname, exit_code) \<Rightarrow>
          let container_config_dirname = path_join2 container_user_dirname ''.wc'';
              host_config_dirname = expanduser E (path_join2 ''~'' ''.wc'')
          in (\<lambda>s. if isdir E (calls s) host_config_dirname
                   then seq (copy_path_to_docker_container E host_config_dirname
                               container_config_dirname ow root)
                          (\<lambda>u.
                        seq (\<lambda>s'. (yaml_load E (calls s')
                                      (path_join host_config_dirname [''third_party'', ''paths.yml'']),
                                    s'))
                          (\<lambda>paths.
                             for_each paths
                               (copy_third_party_path E container_user_dirname
                                  host_config_dirname ow))) s
                   else ret () s)) ?s1 quiet"
    by (simp add: x Let_def)
qed

lemma yields_seq_then_quiet:
  assumes "yields m s P" and "\<And>x new. yields (f x) (s\<lparr>calls := calls s @ new\<rparr>) quiet"
  shows "yields (seq m f) s P"
  using yields_seq[OF assms] by (rule yields_weaken) (auto simp: quiet_def)

lemma is_pip_cmd_pip_install_cmd [simp]: "is_pip_cmd (pip_install_cmd v g up pdl)"
  by (simp add: pip_install_cmd_def)

lemma yields_pip_step:
  "yields (\<lambda>s. run_process_in_docker_container E
                 (pip_install_cmd (python_version_in_container s) g up pdl) None [] True root s) t
     (\<lambda>tr. \<exists>n. tr = [ExecRun n (pip_install_cmd (python_version_in_container t) g up pdl)
                        None (Some []) (WcEnvUser_name root)])"
proof -
  have "yields (\<lambda>s. run_process_in_docker_container E
                 (pip_install_cmd (python_version_in_container s) g up pdl) None [] True root s) t
          (\<lambda>tr. \<exists>n. tr = install_trace [ExecRun n (pip_install_cmd (python_version_in_container t) g up pdl)
                        None (Some []) (WcEnvUser_name root)])
        = yields (run_process_in_docker_container E
                 (pip_install_cmd (python_version_in_container t) g up pdl) None [] True root) t
          (\<lambda>tr. \<exists>n. tr = install_trace [ExecRun n (pip_install_cmd (python_version_in_container t) g up pdl)
                        None (Some []) (WcEnvUser_name root)])"
    by (rule yields_cong) simp
  then have "yields (\<lambda>s. run_process_in_docker_container E
                 (pip_install_cmd (python_version_in_container s) g up pdl) None [] True root s) t
          (\<lambda>tr. \<exists>n. tr = install_trace [ExecRun n (pip_install_cmd (python_version_in_container t) g up pdl)
                        None (Some []) (WcEnvUser_name root)])"
    using yields_run_process[of E "pip_install_cmd (python_version_in_container t) g up pdl"
        None "[]" True root t]
    by simp
  then show ?thesis
    by (rule yields_weaken) (auto simp: install_trace_def)
qed

lemma yields_install_tail:
  "yields (seq (copy_path_to_docker_container E f g True root)
       (\<lambda>u2.
     seq (\<lambda>s. run_process_in_docker_container E
                 (pip_install_cmd (python_version_in_container s) g up pdl) None [] True root s)
       (\<lambda>r.
     seq (perform (os_call E) (OsRemove f)) (\<lambda>u3.
     seq (run_process_in_docker_container E (Argv [''rm'', g]) None [] True root)
       (\<lambda>r2. ret ()))))) t
     (\<lambda>tr. \<exists>n. tr = [ExecRun n (pip_install_cmd (python_version_in_container t) g up pdl)
                        None (Some []) (WcEnvUser_name root)])"
proof (rule yields_seq_quiet[OF yields_copy_path])
  fix u2 :: unit and new
  let ?t1 = "t\<lparr>calls := calls t @ new\<rparr>"
  have v: "python_version_in_container ?t1 = python_version_in_container t" by simp
  have "yields (seq (\<lambda>s. run_process_in_docker_container E
                 (pip_install_cmd (python_version_in_container s) g up pdl) None [] True root s)
       (\<lambda>r.
     seq (perform (os_call E) (OsRemove f)) (\<lambda>u3.
     seq (run_process_in_docker_container E (Argv [''rm'', g]) None [] True root)
       (\<lambda>r2. ret ())))) ?t1
     (\<lambda>tr. \<exists>n. tr = [ExecRun n (pip_install_cmd (python_version_in_container ?t1) g up pdl)
                        None (Some []) (WcEnvUser_name root)])"
  proof (rule yields_seq_then_quiet[OF yields_pip_step])
    fix r :: "string \<times> int" and new2
    show "yields (seq (perform (os_call E) (OsRemove f)) (\<lambda>u3.
                   seq (run_process_in_docker_container E (Argv [''rm'', g]) None [] True root)
                     (\<lambda>r2. ret ()))) (?t1\<lparr>calls := calls ?t1 @ new2\<rparr>) quiet"
    proof (rule yields_seq_quiet)
      show "yields (perform (os_call E) (OsRemove f)) (?t1\<lparr>calls := calls ?t1 @ new2\<rparr>) quiet"
        by (rule yields_weaken[OF yields_perform]) (simp add: quiet_def install_trace_def)
      show "yields (seq (run_process_in_docker_container E (Argv [''rm'', g]) None [] True root)
                     (\<lambda>r2. ret ())) t' quiet" for t'
        by (rule yields_seq_quiet, rule yields_run_quiet, simp, rule yields_ret)
    qed
  qed
  then show "yields (seq (\<lambda>s. run_process_in_docker_container E
                 (pip_install_cmd (python_version_in_container s) g up pdl) None [] True root s)
       (\<lambda>r.
     seq (perform (os_call E) (OsRemove f)) (\<lambda>u3.
     seq (run_process_in_docker_container E (Argv [''rm'', g]) None [] True root)
       (\<lambda>r2. ret ())))) ?t1
     (\<lambda>tr. \<exists>n. tr = [ExecRun n (pip_install_cmd (python_version_in_container t) g up pdl)
                        None (Some []) (WcEnvUser_name root)])"
    unfolding v .
qed

lemma yields_install_python_packages:
  "yields (install_python_packages_in_docker_container E packages up pdl) s
     (install_step_for s packages up pdl)"
  unfolding install_python_packages_in_docker_container_def
proof (rule yields_seq_quiet)
  show "yields (perform (mkstemp E) (Mkstemp ''.txt'')) s quiet"
    by (rule yields_weaken[OF yields_perform]) (simp add: quiet_def install_trace_def)
  fix f new
  let ?s1 = "s\<lparr>calls := calls s @ new\<rparr>"
  have rest: "yields (seq (run_process_in_docker_container E (Shell ''mktemp'') None [] True root)
       (\<lambda>(container_temp_filename, exit_code).
     seq (copy_path_to_docker_container E f container_temp_filename True root)
       (\<lambda>u2.
     seq (\<lambda>s. run_process_in_docker_container E
                 (pip_install_cmd (python_version_in_container s) container_temp_filename
                    up pdl) None [] True root s)
       (\<lambda>r.
     seq (perform (os_call E) (OsRemove f)) (\<lambda>u3.
     seq (run_process_in_docker_container E (Argv [''rm'', container_temp_filename]) None [] True root)
       (\<lambda>r2. ret ())))))) t
     (\<lambda>tr. \<exists>g n. tr = [ExecRun n (pip_install_cmd (python_version_in_container t) g up pdl)
                        None (Some []) (WcEnvUser_name root)])" for t
  proof (rule yields_seq_quiet, rule yields_run_quiet, simp)
    fix x :: "string \<times> int" and new2
    obtain g code where x: "x = (g, code)" by (cases x)
    let ?t1 = "t\<lparr>calls := calls t @ new2\<rparr>"
    have "yields (seq (copy_path_to_docker_container E f g True root)
       (\<lambda>u2.
     seq (\<lambda>s. run_process_in_docker_container E
                 (pip_install_cmd (python_version_in_container s) g up pdl) None [] True root s)
       (\<lambda>r.
     seq (perform (os_call E) (OsRemove f)) (\<lambda>u3.
     seq (run_process_in_docker_container E (Argv [''rm'', g]) None [] True root)
       (\<lambda>r2. ret ()))))) ?t1
     (\<lambda>tr. \<exists>g n. tr = [ExecRun n (pip_install_cmd (python_version_in_container t) g up pdl)
                        None (Some []) (WcEnvUser_name root)])"
      by (rule yields_weaken[OF yields_install_tail]) auto
    then show "yields (case x of (container_temp_filename, exit_code) \<Rightarrow>
     seq (copy_path_to_docker_container E f container_temp_filename True root)
       (\<lambda>u2.
     seq (\<lambda>s. run_process_in_docker_container E
                 (pip_install_cmd (python_version_in_container s) container_temp_filename
                    up pdl) None [] True root s)
       (\<lambda>r.
     seq (perform (os_call E) (OsRemove f)) (\<lambda>u3.
     seq (run_process_in_docker_container E (Argv [''rm'', container_temp_filename]) None [] True root)
       (\<lambda>r2. ret ()))))) ?t1
     (\<lambda>tr. \<exists>g n. tr = [ExecRun n (pip_install_cmd (python_version_in_container t) g up pdl)
                        None (Some []) (WcEnvUser_name root)])"
      by (simp add: x)
  qed
  have w: "yields (perform (os_call E) (OsWrite f packages)) ?s1 (\<lambda>t. t = [OsWrite f packages])"
    by (rule yields_weaken[OF yields_perform]) (simp add: install_trace_def)
  have "yields (seq (perform (os_call E) (OsWrite f packages)) (\<lambda>u1.
     seq (run_process_in_docker_container E (Shell ''mktemp'') None [] True root)
       (\<lambda>(container_temp_filename, exit_code).
     seq (copy_path_to_docker_container E f container_temp_filename True root)
       (\<lambda>u2.
     seq (\<lambda>s. run_process_in_docker_container E
                 (pip_install_cmd (python_version_in_container s) container_temp_filename
                    up pdl) None [] True root s)
       (\<lambda>r.
     seq (perform (os_call E) (OsRemove f)) (\<lambda>u3.
     seq (run_process_in_docker_container E (Argv [''rm'', container_temp_filename]) None [] True root)
       (\<lambda>r2. ret ()))))))) ?s1
     (\<lambda>t. \<exists>t1 t2. t = t1 @ t2 \<and> t1 = [OsWrite f packages]
            \<and> (\<exists>g n. t2 = [ExecRun n (pip_install_cmd (python_version_in_container s) g up pdl)
                        None (Some []) (WcEnvUser_name root)]))"
  proof (rule yields_seq[OF w])
    fix u1 :: unit and new3
    show "yields (seq (run_process_in_docker_container E (Shell ''mktemp'') None [] True root)
       (\<lambda>(container_temp_filename, exit_code).
     seq (copy_path_to_docker_container E f container_temp_filename True root)
       (\<lambda>u2.
     seq (\<lambda>s. run_process_in_docker_container E
                 (pip_install_cmd (python_version_in_container s) container_temp_filename
                    up pdl) None [] True root s)
       (\<lambda>r.
     seq (perform (os_call E) (OsRemove f)) (\<lambda>u3.
     seq (run_process_in_docker_container E (Argv [''rm'', container_temp_filename]) None [] True root)
       (\<lambda>r2. ret ())))))) (?s1\<lparr>calls := calls ?s1 @ new3\<rparr>)
     (\<lambda>t2. \<exists>g n. t2 = [ExecRun n (pip_install_cmd (python_version_in_container s) g up pdl)
                        None (Some []) (WcEnvUser_name root)])"
      using rest[of "?s1\<lparr>calls := calls ?s1 @ new3\<rparr>"] by simp
  qed
  then show "yields (seq (perform (os_call E) (OsWrite f packages)) (\<lambda>u1.
     seq (run_process_in_docker_container E (Shell ''mktemp'') None [] True root)
       (\<lambda>(container_temp_filename, exit_code).
     seq (copy_path_to_docker_container E f container_temp_filename True root)
       (\<lambda>u2.
     seq (\<lambda>s. run_process_in_docker_container E
                 (pip_install_cmd (python_version_in_container s) container_temp_filename
                    up pdl) None [] True root s)
       (\<lambda>r.
     seq (perform (os_call E) (OsRemove f)) (\<lambda>u3.
     seq (run_process_in_docker_container E (Argv [''rm'', container_temp_filename]) None [] True root)
       (\<lambda>r2. ret ()))))))) ?s1 (install_step_for s packages up pdl)"
    by (rule yields_weaken) (auto simp: install_step_for_def)
qed

lemma yields_install_reading:
  assumes "pk t = pk s" and "python_version_in_container t = python_version_in_container s"
  shows "yields (\<lambda>s'. install_python_packages_in_docker_container E (pk s') up pdl s') t
           (install_step_for s (pk s) up pdl)"
proof -
  have "yields (\<lambda>s'. install_python_packages_in_docker_container E (pk s') up pdl s') t
           (install_step_for t (pk t) up pdl)
        = yields (install_python_packages_in_docker_container E (pk t) up pdl) t
           (install_step_for t (pk t) up pdl)"
    by (rule yields_cong) simp
  then have "yields (\<lambda>s'. install_python_packages_in_docker_container E (pk s') up pdl s') t
           (install_step_for t (pk t) up pdl)"
    using yields_install_python_packages by simp
  then show ?thesis
    by (rule yields_weaken) (simp add: install_step_for_def assms)
qed

lemma yields_three_installs:
  "yields
     (seq (\<lambda>s. install_python_packages_in_docker_container E
                 (python_packages_from_pypi s) up False s) (\<lambda>u5.
      seq (\<lambda>s. install_python_packages_in_docker_container E
                 (python_packages_from_github s) up True s) (\<lambda>u6.
      (\<lambda>s. install_python_packages_in_docker_container E
                 (python_packages_from_host s) up True s))))
     (s\<lparr>calls := cs\<rparr>)
     (\<lambda>t. \<exists>t1 t2 t3. t = t1 @ t2 @ t3
            \<and> install_step_for s (python_packages_from_pypi s) up False t1
            \<and> install_step_for s (python_packages_from_github s) up True t2
            \<and> install_step_for s (python_packages_from_host s) up True t3)"
proof -
  let ?t = "s\<lparr>calls := cs\<rparr>"
  have a: "yields (\<lambda>s. install_python_packages_in_docker_container E
                 (python_packages_from_pypi s) up False s) ?t
             (install_step_for s (python_packages_from_pypi s) up False)"
    by (rule yields_install_reading) simp_all
  have b: "yields (seq (\<lambda>s. install_python_packages_in_docker_container E
                 (python_packages_from_github s) up True s) (\<lambda>u6.
      (\<lambda>s. install_python_packages_in_docker_container E
                 (python_packages_from_host s) up True s))) (?t\<lparr>calls := calls ?t @ new\<rparr>)
             (\<lambda>t. \<exists>t2 t3. t = t2 @ t3
                \<and> install_step_for s (python_packages_from_github s) up True t2
                \<and> install_step_for s (python_packages_from_host s) up True t3)" for new
  proof (rule yields_seq)
    show "yields (\<lambda>s. install_python_packages_in_docker_container E
                 (python_packages_from_github s) up True s) (?t\<lparr>calls := calls ?t @ new\<rparr>)
            (install_step_for s (python_packages_from_github s) up True)"
      by (rule yields_install_reading) simp_all
    show "yields (\<lambda>s. install_python_packages_in_docker_container E
                 (python_packages_from_host s) up True s)
            (?t\<lparr>calls := calls ?t @ new\<rparr>\<lparr>calls := calls (?t\<lparr>calls := calls ?t @ new\<rparr>) @ new2\<rparr>)
            (install_step_for s (python_packages_from_host s) up True)" for new2
      by (rule yields_install_reading) simp_all
  qed
  show ?thesis
    by (rule yields_weaken[OF yields_seq[OF a b]]) blast
qed

lemma yields_setup:
  "yields (setup_docker_container E up) s
     (\<lambda>t. \<exists>t1 t2 t3. t = t1 @ t2 @ t3
            \<and> install_step_for s (python_packages_from_pypi s) up False t1
            \<and> install_step_for s (python_packages_from_github s) up True t2
            \<and> install_step_for s (python_packages_from_host s) up True t3)"
  unfolding setup_docker_container_def
proof (rule yields_seq_quiet[OF yields_copy_config_files])
  fix u1 :: unit and n1
  let ?s1 = "s\<lparr>calls := calls s @ n1\<rparr>"
  let ?P = "\<lambda>t. \<exists>t1 t2 t3. t = t1 @ t2 @ t3
            \<and> install_step_for s (python_packages_from_pypi s) up False t1
            \<and> install_step_for s (python_packages_from_github s) up True t2
            \<and> install_step_for s (python_packages_from_host s) up True t3"
  have copies: "yields (\<lambda>s. for_each (map snd (paths_to_copy_to_docker_container s))
                 (\<lambda>path. copy_path_to_docker_container E (host path) (container path) up root) s)
                 ?s1 quiet"
  proof -
    have "yields (\<lambda>s. for_each (map snd (paths_to_copy_to_docker_container s))
                 (\<lambda>path. copy_path_to_docker_container E (host path) (container path) up root) s)
                 ?s1 quiet
          = yields (for_each (map snd (paths_to_copy_to_docker_container ?s1))
                 (\<lambda>path. copy_path_to_docker_container E (host path) (container path) up root))
                 ?s1 quiet"
      by (rule yields_cong) simp
    then show ?thesis using yields_for_each_quiet[OF yields_copy_path] by simp
  qed
  show "yields (seq (\<lambda>s. for_each (map snd (paths_to_copy_to_docker_container s))
                 (\<lambda>path. copy_path_to_docker_container E (host path) (container path) up root) s)
       (\<lambda>u2.
     seq (install_github_ssh_host_in_docker_container E up) (\<lambda>u3.
     seq (test_github_ssh_access_in_docker_container E) (\<lambda>ok.
     seq (if ok then ret () else raise AssertionError) (\<lambda>u4.
     seq (\<lambda>s. install_python_packages_in_docker_container E
                 (python_packages_from_pypi s) up False s) (\<lambda>u5.
     seq (\<lambda>s. install_python_packages_in_docker_container E
                 (python_packages_from_github s) up True s) (\<lambda>u6.
     (\<lambda>s. install_python_packages_in_docker_container E
                 (python_packages_from_host s) up True s)))))))) ?s1 ?P"
  proof (rule yields_seq_quiet[OF copies])
    fix u2 :: unit and n2
    let ?s2 = "?s1\<lparr>calls := calls ?s1 @ n2\<rparr>"
    show "yields (seq (install_github_ssh_host_in_docker_container E up) (\<lambda>u3.
     seq (test_github_ssh_access_in_docker_container E) (\<lambda>ok.
     seq (if ok then ret () else raise AssertionError) (\<lambda>u4.
     seq (\<lambda>s. install_python_packages_in_docker_container E
                 (python_packages_from_pypi s) up False s) (\<lambda>u5.
     seq (\<lambda>s. install_python_packages_in_docker_container E
                 (python_packages_from_github s) up True s) (\<lambda>u6.
     (\<lambda>s. install_python_packages_in_docker_container E
                 (python_packages_from_host s) up True s))))))) ?s2 ?P"
    proof (rule yields_seq_quiet[OF yields_install_github_ssh_host])
      fix u3 :: unit and n3
      let ?s3 = "?s2\<lparr>calls := calls ?s2 @ n3\<rparr>"
      show "yields (seq (test_github_ssh_access_in_docker_container E) (\<lambda>ok.
     seq (if ok then ret () else raise AssertionError) (\<lambda>u4.
     seq (\<lambda>s. install_python_packages_in_docker_container E
                 (python_packages_from_pypi s) up False s) (\<lambda>u5.
     seq (\<lambda>s. install_python_packages_in_docker_container E
                 (python_packages_from_github s) up True s) (\<lambda>u6.
     (\<lambda>s. install_python_packages_in_docker_container E
                 (python_packages_from_host s) up True s)))))) ?s3 ?P"
      proof (rule yields_seq_quiet[OF yields_test_github_ssh_access])
        fix ok :: bool and n4
        let ?s4 = "?s3\<lparr>calls := calls ?s3 @ n4\<rparr>"
        have asrt: "yields (if ok then ret () else raise AssertionError) ?s4 quiet"
          by (simp add: yields_ret yields_raise)
        show "yields (seq (if ok then ret () else raise AssertionError) (\<lambda>u4.
     seq (\<lambda>s. install_python_packages_in_docker_container E
                 (python_packages_from_pypi s) up False s) (\<lambda>u5.
     seq (\<lambda>s. install_python_packages_in_docker_container E
                 (python_packages_from_github s) up True s) (\<lambda>u6.
     (\<lambda>s. install_python_packages_in_docker_container E
                 (python_packages_from_host s) up True s))))) ?s4 ?P"
        proof (rule yields_seq_quiet[OF asrt])
          fix u4 :: unit and n5
          show "yields (seq (\<lambda>s. install_python_packages_in_docker_container E
                 (python_packages_from_pypi s) up False s) (\<lambda>u5.
     seq (\<lambda>s. install_python_packages_in_docker_container E
                 (python_packages_from_github s) up True s) (\<lambda>u6.
     (\<lambda>s. install_python_packages_in_docker_container E
                 (python_packages_from_host s) up True s)))) (?s4\<lparr>calls := calls ?s4 @ n5\<rparr>) ?P"
            using yields_three_installs[where E = E and up = up and s = s and cs = "calls s @ n1 @ n2 @ n3 @ n4 @ n5"] by simp
        qed
      qed
    qed
  qed
qed

lemma install_steps_of_trace:
  "filter is_install_step (install_trace cs) = filter is_install_step cs"
proof -
  have "is_install_step c \<Longrightarrow> is_install_call c" for c by (cases c) auto
  then show ?thesis
    unfolding install_trace_def filter_filter by (intro filter_cong) auto
qed

lemma install_step_for_count:
  "install_step_for s pk up pdl t \<Longrightarrow> length (filter is_install_step t) = 1"
  by (auto simp: install_step_for_def)

text \<open>
  C7, as the code has it. With the PyPI list \<open>requests==2.0\<close> and the two other lists
  empty, \<open>create\<close> followed by \<open>setup\<close> succeeds and issues three package-install
  steps, not one: \<open>install_python_packages_in_docker_container\<close> is called for each of the
  three lists and has no test for an empty list.
\<close>

theorem setup_one_install_counterexample:
  "python_packages_from_pypi mgr0 = ''requests==2.0''
   \<and> python_packages_from_github mgr0 = [] \<and> python_packages_from_host mgr0 = []
   \<and> paths_to_mount_to_docker_container mgr0 = []
   \<and> fst (setup_docker_container env1 False (snd (create_docker_container env1 True mgr0))) = Inr ()
   \<and> filter is_install_step
        (calls (snd (setup_docker_container env1 False (snd (create_docker_container env1 True mgr0)))))
      = [ExecRun ''wc_env-2018-08-23-12-00-00''
           (Argv [''pip3.6'', ''install'', ''-r'', ''/tmp/tmp.X'']) None (Some []) ''root'',
         ExecRun ''wc_env-2018-08-23-12-00-00''
           (Argv [''pip3.6'', ''install'', ''-r'', ''/tmp/tmp.X'', ''--process-dependency-links''])
           None (Some []) ''root'',
         ExecRun ''wc_env-2018-08-23-12-00-00''
           (Argv [''pip3.6'', ''install'', ''-r'', ''/tmp/tmp.X'', ''--process-dependency-links''])
           None (Some []) ''root'']"
  by code_simp

text \<open>
  C7, amended. A setup that returns normally has issued exactly three package-install
  steps, in this order: one for the PyPI list, one for the GitHub list and one for the host
  list, the last two with \<open>--process-dependency-links\<close>, each with \<open>-U\<close> exactly when
  \<open>upgrade\<close> is set, whether the list is empty or not.
\<close>

theorem setup_docker_container_installs_every_package_set:
  assumes "fst (setup_docker_container E upgrade s) = Inr ()"
  shows "\<exists>t1 t2 t3.
           install_trace (drop (length (calls s)) (calls (snd (setup_docker_container E upgrade s))))
             = t1 @ t2 @ t3
           \<and> install_step_for s (python_packages_from_pypi s) upgrade False t1
           \<and> install_step_for s (python_packages_from_github s) upgrade True t2
           \<and> install_step_for s (python_packages_from_host s) upgrade True t3
           \<and> length (filter is_install_step
                (drop (length (calls s)) (calls (snd (setup_docker_container E upgrade s))))) = 3"
proof -
  from yields_setup[of E upgrade s] assms
  obtain new t1 t2 t3 where n: "snd (setup_docker_container E upgrade s) = s\<lparr>calls := calls s @ new\<rparr>"
    and t: "install_trace new = t1 @ t2 @ t3"
      "install_step_for s (python_packages_from_pypi s) upgrade False t1"
      "install_step_for s (python_packages_from_github s) upgrade True t2"
      "install_step_for s (python_packages_from_host s) upgrade True t3"
    unfolding yields_def by blast
  have d: "drop (length (calls s)) (calls (snd (setup_docker_container E upgrade s))) = new"
    by (simp add: n)
  have "length (filter is_install_step new) = length (filter is_install_step (t1 @ t2 @ t3))"
    using install_steps_of_trace[of new] t(1) by simp
  also have "\<dots> = 3"
    using install_step_for_count[OF t(2)] install_step_for_count[OF t(3)]
      install_step_for_count[OF t(4)] by simp
  finally show ?thesis unfolding d using t by blast
qed

theorem setup_docker_container_installs_every_package_set_witness:
  "fst (setup_docker_container env1 False mgr1) = Inr ()
   \<and> length (filter is_install_step
        (drop (length (calls mgr1)) (calls (snd (setup_docker_container env1 False mgr1))))) = 3"
proof -
  have a: "fst (setup_docker_container env1 False mgr1) = Inr ()" by code_simp
  from setup_docker_container_installs_every_package_set[OF a]
  show ?thesis using a by blast
qed

end
